theory Spec2Isabelle
  imports Main
begin

section \<open>Strings\<close>

text \<open>
  A JavaScript string is a sequence of UTF-16 code units and \<open>length\<close> counts them.
  The model uses \<^typ>\<open>string\<close>, whose characters are the code units below 256
  (the Latin-1 range); on that range the definitions below are the ECMAScript ones.
\<close>

text \<open>The class \<open>\s\<close> of a regular expression, which is also what \<open>trim\<close> strips:
  tab, line feed, vertical tab, form feed, carriage return, space, no-break space.\<close>

definition isWhiteSpace :: "char \<Rightarrow> bool" where
  "isWhiteSpace c \<longleftrightarrow>
     c \<in> set [CHR 0x09, CHR 0x0A, CHR 0x0B, CHR 0x0C, CHR 0x0D, CHR 0x20, CHR 0xA0]"

definition trim :: "string \<Rightarrow> string" where
  "trim s = rev (dropWhile isWhiteSpace (rev (dropWhile isWhiteSpace s)))"

text \<open>\<open>s.substring(0, n)\<close> for an integer \<open>n\<close>: a negative \<open>n\<close> counts as 0.\<close>

definition substring0 :: "string \<Rightarrow> int \<Rightarrow> string" where
  "substring0 s n = take (nat n) s"

text \<open>\<open>s.includes(p)\<close>: \<open>p\<close> occurs in \<open>s\<close> as a contiguous block.\<close>

fun starts_with :: "string \<Rightarrow> string \<Rightarrow> bool" where
  "starts_with s [] = True"
| "starts_with [] (p # ps) = False"
| "starts_with (c # cs) (p # ps) = (c = p \<and> starts_with cs ps)"

fun includes_str :: "string \<Rightarrow> string \<Rightarrow> bool" where
  "includes_str [] p = (p = [])"
| "includes_str (c # cs) p = (starts_with (c # cs) p \<or> includes_str cs p)"

text \<open>\<open>toLowerCase\<close> on Latin-1: the letters A-Z and the accented capitals
  0xC0-0xDE (without the multiplication sign 0xD7) move up by 32.\<close>

definition lower_char :: "char \<Rightarrow> char" where
  "lower_char c =
     (let n = (of_char c :: nat)
      in if (65 \<le> n \<and> n \<le> 90) \<or> (192 \<le> n \<and> n \<le> 222 \<and> n \<noteq> 215)
         then char_of (n + 32) else c)"

definition toLowerCase :: "string \<Rightarrow> string" where
  "toLowerCase s = map lower_char s"

text \<open>Decimal rendering of a number inside a template literal.\<close>

fun digits_of :: "nat \<Rightarrow> string" where
  "digits_of n =
     (if n < 10 then [char_of (48 + n)]
      else digits_of (n div 10) @ [char_of (48 + n mod 10)])"

declare digits_of.simps [simp del]

definition dquote :: string where
  "dquote = [CHR 0x22]"

section \<open>Token estimator and response summarizer (server/routes.ts)\<close>

text \<open>\<open>Math.ceil(text.length / 4)\<close>.\<close>

definition estimateTokenCount :: "string \<Rightarrow> int" where
  "estimateTokenCount text = (int (length text) + 3) div 4"

text \<open>
  \<open>message.split(/[.!?]\s+/)\<close>: the separator is one of \<open>. ! ?\<close> followed by a
  maximal run of at least one white-space character. The first argument is the piece
  collected since the last separator; the piece after the last separator is always
  emitted, also when it is empty.
\<close>

definition isSentenceEnd :: "char \<Rightarrow> bool" where
  "isSentenceEnd c \<longleftrightarrow> c = CHR ''.'' \<or> c = CHR ''!'' \<or> c = CHR ''?''"

function split_sentences :: "string \<Rightarrow> string \<Rightarrow> string list" where
  "split_sentences piece [] = [piece]"
| "split_sentences piece (c # cs) =
     (if isSentenceEnd c \<and> cs \<noteq> [] \<and> isWhiteSpace (hd cs)
      then piece # split_sentences [] (dropWhile isWhiteSpace cs)
      else split_sentences (piece @ [c]) cs)"
  by pat_completeness auto
termination
  by (relation "measure (\<lambda>(piece, rest). length rest)")
     (auto simp: length_dropWhile_le less_Suc_eq_le)

text \<open>The \<open>for\<close> loop of \<open>summarizeResponse\<close>: \<open>break\<close> returns the summary so far.\<close>

fun accumulate :: "int \<Rightarrow> string \<Rightarrow> string list \<Rightarrow> string" where
  "accumulate maxLength summary [] = summary"
| "accumulate maxLength summary (sentence # rest) =
     (if int (length (summary @ sentence)) > maxLength - 20 then summary
      else accumulate maxLength (summary @ sentence @ ''. '') rest)"

text \<open>\<open>maxLength\<close> is a length (the callers pass 150 and 250, the default is 300); the
  arithmetic on it is done in the integers, as \<open>maxLength - 20\<close> may be negative.\<close>

definition summarizeResponse :: "string \<Rightarrow> nat \<Rightarrow> string" where
  "summarizeResponse message maxLength =
     (if length message \<le> maxLength then message
      else
        let sentences = filter (\<lambda>s. length s > 20) (split_sentences [] message);
            summary = accumulate (int maxLength) [] sentences
        in if trim summary \<noteq> [] then trim summary
           else substring0 message (int maxLength) @ ''...'')"

section \<open>Token budgeting (server/routes.ts, the discuss handler)\<close>

definition maxModelTokens :: "bool \<Rightarrow> int" where
  "maxModelTokens demoMode = (if demoMode then 8192 else 1000000)"

definition maxOutputTokens :: "bool \<Rightarrow> int" where
  "maxOutputTokens demoMode = (if demoMode then 1500 else 8192)"

definition safeOutputTokens :: "bool \<Rightarrow> int \<Rightarrow> int" where
  "safeOutputTokens demoMode promptTokens =
     min (maxOutputTokens demoMode)
         (max (if demoMode then 1500 else 2000)
              (maxOutputTokens demoMode - min promptTokens 10000))"

section \<open>Data model\<close>

text \<open>
  JavaScript truthiness of a string that may be missing: \<open>undefined\<close>, \<open>null\<close> and
  the empty string are falsy. \<open>or_else x d\<close> is \<open>x || d\<close>.
\<close>

definition truthy :: "string option \<Rightarrow> bool" where
  "truthy x = (case x of None \<Rightarrow> False | Some s \<Rightarrow> s \<noteq> [])"

definition or_else :: "string option \<Rightarrow> string \<Rightarrow> string" where
  "or_else x d = (case x of None \<Rightarrow> d | Some s \<Rightarrow> if s \<noteq> [] then s else d)"

text \<open>An awaited call either throws (with the error's message) or returns.\<close>

datatype 'a outcome = Throws string | Returns 'a

record SearchResult =
  title :: string
  url :: string
  description :: string

record ResearchData =
  query :: string
  results :: "SearchResult list"
  allResults :: "SearchResult list option"
  totalAvailable :: "nat option"
  summary :: string

text \<open>A result as the search service sends it: any field may be missing.\<close>

record raw_result =
  raw_title :: "string option"
  raw_url :: "string option"
  raw_description :: "string option"

text \<open>An entry of the \<open>context\<close> array of a request, and of \<open>agentResponses\<close>.\<close>

record entry =
  entry_role :: string
  entry_message :: string

record command =
  cmd_transcript :: string
  cmd_timestamp :: nat
  agentResponses :: "entry list"

text \<open>What \<open>generateContent\<close> returns, as far as the handler reads it:
  \<open>response.text\<close> and \<open>response.candidates?.[0]?.finishReason\<close>.\<close>

record model_response =
  response_text :: "string option"
  finishReason :: "string option"

text \<open>The speech service (minimax-tts.ts). \<open>speed\<close> is in hundredths: 95 is 0.95.\<close>

record VoiceConfig =
  voiceId :: "string option"
  emotion :: "string option"
  speed :: "nat option"

text \<open>The request body of the speech call, without its constant fields
  (\<open>stream\<close>, \<open>vol\<close>, \<open>pitch\<close>, \<open>audio_setting\<close>).\<close>

record tts_request =
  tts_model :: string
  tts_text :: string
  voice_id :: string
  tts_speed :: nat

text \<open>
  The parsed body of the speech service's answer, as far as \<open>generateSpeech\<close> reads it:
  \<open>base_resp\<close> is \<open>None\<close> when the body has no \<open>base_resp\<close>, and \<open>Some c\<close> with
  \<open>c\<close> its \<open>status_code\<close> (\<open>None\<close> when that is missing); the three places where
  the hex-encoded audio may stand are \<open>data.audio\<close>, \<open>audio\<close> and
  \<open>extra_info.audio_file\<close>.
\<close>

record tts_data =
  base_resp :: "int option option"
  data_audio :: "string option"
  audio :: "string option"
  extra_info_audio_file :: "string option"

text \<open>The answer to the speech call: \<open>response.ok\<close>, and the result of
  \<open>response.json()\<close>, which is \<open>None\<close> when the body does not parse (it throws).\<close>

record tts_http =
  ok :: bool
  json :: "tts_data option"

text \<open>
  The external collaborators and the process environment of the server. The search
  service answers \<open>None\<close> when \<open>searchResults\<close> or \<open>searchResults.web?.results\<close>
  is missing.
\<close>

record env =
  MOCK_BRAVE_SEARCH :: bool
  BRAVE_API_KEY :: "string option"
  MINIMAX_API_KEY :: "string option"
  MINIMAX_GROUP_ID :: "string option"
  searchCommands :: "string \<Rightarrow> nat \<Rightarrow> command list outcome"
  getRecentCommands :: "nat \<Rightarrow> command list outcome"
  webSearch :: "string \<Rightarrow> nat \<Rightarrow> raw_result list option outcome"
  generateContent :: "string \<Rightarrow> string \<Rightarrow> int \<Rightarrow> model_response outcome"
  ttsFetch :: "tts_request \<Rightarrow> tts_http outcome"
  toLocaleString :: "nat \<Rightarrow> string"

text \<open>The external calls a request makes, in the order it makes them.\<close>

datatype call =
    SearchCommands string nat
  | GetRecentCommands nat
  | WebSearch string nat
  | GenerateContent string string int
  | TtsFetch tts_request

fun is_WebSearch :: "call \<Rightarrow> bool" where
  "is_WebSearch (WebSearch q n) = True"
| "is_WebSearch c = False"

fun is_GenerateContent :: "call \<Rightarrow> bool" where
  "is_GenerateContent (GenerateContent m p n) = True"
| "is_GenerateContent c = False"

fun is_TtsFetch :: "call \<Rightarrow> bool" where
  "is_TtsFetch (TtsFetch r) = True"
| "is_TtsFetch c = False"

section \<open>Research (server/brave-search.ts)\<close>

definition researchQuestionPatterns :: "string list" where
  "researchQuestionPatterns =
     [''what is the best'', ''what's the best'', ''what are the best'',
      ''what are best practices'', ''what is best practice'', ''how should i'',
      ''how should we'', ''what is recommended'', ''what's recommended'',
      ''which is better'', ''which approach'', ''what approach'', ''compare'',
      ''research'', ''show me best'', ''find best'', ''lookup'', ''search for'']"

definition shouldPerformResearch :: "string \<Rightarrow> bool" where
  "shouldPerformResearch userPrompt =
     (let lowerPrompt = toLowerCase userPrompt
      in list_ex (\<lambda>pattern. includes_str lowerPrompt pattern) researchQuestionPatterns)"

definition shape_result :: "raw_result \<Rightarrow> SearchResult" where
  "shape_result result =
     \<lparr>title = or_else (raw_title result) ''Untitled'',
      url = or_else (raw_url result) [],
      description = or_else (raw_description result) []\<rparr>"

definition summary_of :: "SearchResult \<Rightarrow> string" where
  "summary_of topResult =
     title topResult @ ''\<newline>'' @ description topResult @ ''\<newline>Source: '' @ url topResult"

text \<open>
  \<open>performResearch\<close>: the calls it makes and what it returns (\<open>None\<close> is \<open>null\<close>).
  Everything after the key check runs inside \<open>try\<close>: a throwing search call, and
  the \<open>TypeError\<close> of \<open>topResult.title\<close> when the service sent an empty list, end in
  the \<open>catch\<close>, which returns \<open>null\<close>.
\<close>

definition performResearch :: "env \<Rightarrow> string \<Rightarrow> call list \<times> ResearchData option" where
  "performResearch e q =
     (if \<not> truthy (BRAVE_API_KEY e) then ([], None)
      else
        (case webSearch e q 5 of
           Throws err \<Rightarrow> ([WebSearch q 5], None)
         | Returns None \<Rightarrow> ([WebSearch q 5], None)
         | Returns (Some found) \<Rightarrow>
             (let allResults = map shape_result (take 5 found)
              in case allResults of
                   [] \<Rightarrow> ([WebSearch q 5], None)
                 | topResult # others \<Rightarrow>
                     ([WebSearch q 5],
                      Some \<lparr>query = q,
                            results = [topResult],
                            allResults = Some allResults,
                            totalAvailable = Some (length allResults),
                            summary = summary_of topResult\<rparr>))))"

section \<open>Speech synthesis (minimax-tts.ts)\<close>

text \<open>
  Property lookup \<open>obj[key]\<close> on an object literal: an own property first, then the
  members every object inherits from \<open>Object.prototype\<close>. Each inherited member is a
  function, or (\<open>__proto__\<close>) the prototype object itself, so all of them are truthy;
  the table gives the text a template literal renders for it.
\<close>

definition Object_prototype :: "(string \<times> string) list" where
  "Object_prototype =
     [(''constructor'', ''function Object() { [native code] }''),
      (''__defineGetter__'', ''function __defineGetter__() { [native code] }''),
      (''__defineSetter__'', ''function __defineSetter__() { [native code] }''),
      (''hasOwnProperty'', ''function hasOwnProperty() { [native code] }''),
      (''__lookupGetter__'', ''function __lookupGetter__() { [native code] }''),
      (''__lookupSetter__'', ''function __lookupSetter__() { [native code] }''),
      (''isPrototypeOf'', ''function isPrototypeOf() { [native code] }''),
      (''propertyIsEnumerable'', ''function propertyIsEnumerable() { [native code] }''),
      (''toString'', ''function toString() { [native code] }''),
      (''valueOf'', ''function valueOf() { [native code] }''),
      (''__proto__'', ''[object Object]''),
      (''toLocaleString'', ''function toLocaleString() { [native code] }'')]"

definition AGENT_VOICES :: "(string \<times> VoiceConfig) list" where
  "AGENT_VOICES =
     [(''architect'',
        \<lparr>voiceId = Some ''male-qn-qingse'', emotion = Some ''neutral'', speed = Some 95\<rparr>),
      (''backend'',
        \<lparr>voiceId = Some ''male-qn-qingse'', emotion = Some ''neutral'', speed = Some 110\<rparr>),
      (''frontend'',
        \<lparr>voiceId = Some ''female-shaonv'', emotion = Some ''happy'', speed = Some 105\<rparr>),
      (''qa'',
        \<lparr>voiceId = Some ''male-qn-jingying'', emotion = Some ''neutral'', speed = Some 98\<rparr>)]"

text \<open>\<open>AGENT_VOICES[agentRole] || AGENT_VOICES.architect\<close>: an inherited member is
  truthy and has none of the three fields.\<close>

definition voice_for :: "string \<Rightarrow> VoiceConfig" where
  "voice_for agentRole =
     (case map_of AGENT_VOICES agentRole of
        Some v \<Rightarrow> v
      | None \<Rightarrow>
          (case map_of Object_prototype agentRole of
             Some inherited \<Rightarrow> \<lparr>voiceId = None, emotion = None, speed = None\<rparr>
           | None \<Rightarrow>
               \<lparr>voiceId = Some ''male-qn-qingse'', emotion = Some ''neutral'',
                speed = Some 95\<rparr>))"

text \<open>\<open>s.lastIndexOf(c)\<close>: the last position of \<open>c\<close>, or -1.\<close>

definition lastIndexOf :: "string \<Rightarrow> char \<Rightarrow> int" where
  "lastIndexOf s c =
     (case filter (\<lambda>i. s ! i = c) (rev [0..<length s]) of
        [] \<Rightarrow> - 1
      | i # others \<Rightarrow> int i)"

text \<open>
  \<open>lastSentenceEnd > maxChars * 0.7\<close> is a comparison of IEEE doubles. The literal
  \<open>0.7\<close> is the double \<open>6305039478318694 / 2^53\<close>; the product with the integer
  \<open>maxChars\<close> (below \<open>2^53\<close>, as every length is) is the exact product rounded to
  53 significant bits, ties to even. \<open>times_0_7 n\<close> gives that double as the pair
  \<open>(r, s)\<close> standing for \<open>r * 2^s / 2^53\<close>. For 1000 it is exactly 700.
\<close>

function bit_length :: "int \<Rightarrow> nat" where
  "bit_length q = (if q \<le> 0 then 0 else Suc (bit_length (q div 2)))"
  by pat_completeness auto
termination
  by (relation "measure nat") auto

declare bit_length.simps [simp del]

definition times_0_7 :: "nat \<Rightarrow> int \<times> nat" where
  "times_0_7 n =
     (let q = int n * 6305039478318694;
          s = bit_length q - 53;
          r = q div 2 ^ s;
          rest = q mod 2 ^ s
      in if 2 * rest > 2 ^ s \<or> (2 * rest = 2 ^ s \<and> odd r) then (r + 1, s) else (r, s))"

definition exceeds_0_7 :: "int \<Rightarrow> nat \<Rightarrow> bool" where
  "exceeds_0_7 x n = (x * 2 ^ 53 > fst (times_0_7 n) * 2 ^ snd (times_0_7 n))"

definition truncateTextForTTS :: "string \<Rightarrow> nat \<Rightarrow> string" where
  "truncateTextForTTS txt maxChars =
     (if length txt \<le> maxChars then txt
      else
        let truncated = take maxChars txt;
            lastPeriod = lastIndexOf truncated (CHR ''.'');
            lastExclamation = lastIndexOf truncated (CHR ''!'');
            lastQuestion = lastIndexOf truncated (CHR ''?'');
            lastSentenceEnd = max lastPeriod (max lastExclamation lastQuestion)
        in if exceeds_0_7 lastSentenceEnd maxChars
           then substring0 txt (lastSentenceEnd + 1)
           else truncated @ ''...'')"

text \<open>
  \<open>Buffer.from(audioHex, 'hex')\<close>: pairs of hexadecimal digits become bytes; decoding
  stops at the first pair that is not two hexadecimal digits, and a trailing single
  character is dropped. It never throws on a string, and the buffer it returns, also an
  empty one, is an object (truthy).
\<close>

definition unhex :: "char \<Rightarrow> nat option" where
  "unhex c =
     (let n = (of_char c :: nat)
      in if 48 \<le> n \<and> n \<le> 57 then Some (n - 48)
         else if 97 \<le> n \<and> n \<le> 102 then Some (n - 87)
         else if 65 \<le> n \<and> n \<le> 70 then Some (n - 55)
         else None)"

fun hexDecode :: "string \<Rightarrow> nat list" where
  "hexDecode (a # b # rest) =
     (case (unhex a, unhex b) of
        (Some x, Some y) \<Rightarrow> (16 * x + y) # hexDecode rest
      | other \<Rightarrow> [])"
| "hexDecode short = []"

text \<open>\<open>buffer.toString('base64')\<close>.\<close>

definition base64_alphabet :: string where
  "base64_alphabet = ''ABCDEFGHIJKLMNOPQRSTUVWXYZabcdefghijklmnopqrstuvwxyz0123456789+/''"

definition b64 :: "nat \<Rightarrow> char" where
  "b64 n = base64_alphabet ! (n mod 64)"

fun base64 :: "nat list \<Rightarrow> string" where
  "base64 (a # b # c # rest) =
     [b64 (a div 4), b64 ((a mod 4) * 16 + b div 16), b64 ((b mod 16) * 4 + c div 64),
      b64 (c mod 64)] @ base64 rest"
| "base64 [a, b] =
     [b64 (a div 4), b64 ((a mod 4) * 16 + b div 16), b64 ((b mod 16) * 4), CHR ''='']"
| "base64 [a] = [b64 (a div 4), b64 ((a mod 4) * 16), CHR ''='', CHR ''='']"
| "base64 [] = []"

text \<open>The first truthy of \<open>data.data.audio\<close>, \<open>data.audio\<close>, \<open>data.extra_info.audio_file\<close>.\<close>

definition audioHex_of :: "tts_data \<Rightarrow> string option" where
  "audioHex_of d =
     (if truthy (data_audio d) then data_audio d
      else if truthy (audio d) then audio d
      else if truthy (extra_info_audio_file d) then extra_info_audio_file d
      else None)"

text \<open>
  \<open>generateSpeech\<close>: the calls it makes and the buffer it returns (\<open>None\<close> is
  \<open>null\<close>). The two credential checks stand before the \<open>try\<close>; a throwing \<open>fetch\<close> and a
  throwing \<open>response.json()\<close> end in the \<open>catch\<close>, which returns \<open>null\<close>.
\<close>

definition generateSpeech :: "env \<Rightarrow> string \<Rightarrow> string \<Rightarrow> VoiceConfig \<Rightarrow> call list \<times> nat list option" where
  "generateSpeech e txt model voiceConfig =
     (if \<not> truthy (MINIMAX_API_KEY e) then ([], None)
      else if \<not> truthy (MINIMAX_GROUP_ID e) then ([], None)
      else
        let requestBody =
              \<lparr>tts_model = model, tts_text = txt,
               voice_id = or_else (voiceId voiceConfig) ''male-qn-qingse'',
               tts_speed = (case speed voiceConfig of
                              None \<Rightarrow> 100
                            | Some v \<Rightarrow> if v \<noteq> 0 then v else 100)\<rparr>
        in (case ttsFetch e requestBody of
              Throws err \<Rightarrow> ([TtsFetch requestBody], None)
            | Returns response \<Rightarrow>
                ([TtsFetch requestBody],
                 if \<not> ok response then None
                 else
                   (case json response of
                      None \<Rightarrow> None
                    | Some d \<Rightarrow>
                        if base_resp d \<noteq> None \<and> base_resp d \<noteq> Some (Some 0) then None
                        else
                          (case audioHex_of d of
                             Some audioHex \<Rightarrow> Some (hexDecode audioHex)
                           | None \<Rightarrow> None)))))"

definition generateAgentSpeech :: "env \<Rightarrow> string \<Rightarrow> string \<Rightarrow> call list \<times> nat list option" where
  "generateAgentSpeech e agentRole txt =
     (let voiceConfig = voice_for agentRole;
          truncatedText = truncateTextForTTS txt 1000
      in generateSpeech e truncatedText ''speech-02-turbo'' voiceConfig)"

section \<open>The discuss handler (server/routes.ts)\<close>

text \<open>
  Three fixed labels start, in the source file, with characters outside Latin-1: U+00F0
  U+0178 U+201C U+0161 (line 208), U+00F0 U+0178 U+201C (line 220) and U+00F0 U+0178
  U+201D (line 235). The model's strings cannot hold U+0178, U+201C, U+201D and U+0161;
  each is written as the byte Windows-1252 gives it (0x9F, 0x93, 0x94, 0x9A), so that
  every label has the length it has in the source.
\<close>

definition BOOKS :: string where
  "BOOKS = [CHR 0xF0, CHR 0x9F, CHR 0x93, CHR 0x9A]"

definition MEMO :: string where
  "MEMO = [CHR 0xF0, CHR 0x9F, CHR 0x93]"

definition MAGNIFIER :: string where
  "MAGNIFIER = [CHR 0xF0, CHR 0x9F, CHR 0x94]"

definition allMockResults :: "SearchResult list" where
  "allMockResults =
     [\<lparr>title = ''Best Practices for Modern Authentication'',
       url = ''https://auth0.com/docs/best-practices'',
       description = ''Comprehensive guide covering OAuth 2.0, OpenID Connect, JWT tokens, and secure session management for modern applications.''\<rparr>,
      \<lparr>title = ''OAuth 2.0 Implementation Guide - MDN'',
       url = ''https://developer.mozilla.org/en-US/docs/Web/Security/OAuth'',
       description = ''Mozilla's complete walkthrough of implementing OAuth 2.0 authentication flows with code examples and security considerations.''\<rparr>,
      \<lparr>title = ''JWT Authentication Tutorial'',
       url = ''https://jwt.io/introduction'',
       description = ''Learn how to implement JSON Web Tokens for stateless authentication in web applications with best practices.''\<rparr>]"

definition getMockResearchData :: "string \<Rightarrow> ResearchData" where
  "getMockResearchData q =
     (let topResult = hd allMockResults
      in \<lparr>query = q,
          results = [topResult],
          allResults = Some allMockResults,
          totalAvailable = Some (length allMockResults),
          summary = summary_of topResult\<rparr>)"

definition PROMPT_architect :: string where
  "PROMPT_architect =
     ''You are an elite Architect Agent powered by advanced AI reasoning. Your role is to:\<newline>'' @
     ''- Deeply analyze user requirements and envision the complete system architecture\<newline>'' @
     ''- Make sophisticated technical decisions leveraging modern best practices, design patterns, and scalability considerations\<newline>'' @
     ''- Design elegant component hierarchies with clear separation of concerns and data flow strategies\<newline>'' @
     ''- Provide detailed architectural blueprints with specific technology stack recommendations and rationale\<newline>'' @
     ''- **CRITICAL: Generate PRODUCTION-READY EXECUTABLE CODE** for configuration files, project structure, core abstractions, and architectural patterns\<newline>'' @
     ''- Think through edge cases, performance implications, and future extensibility\<newline>'' @
     ''- Focus on code quality, maintainability, and developer experience\<newline>'' @
     ''- Include reasoning about trade-offs and why certain architectural choices were made''"

definition PROMPT_backend :: string where
  "PROMPT_backend =
     ''You are an elite Backend Agent powered by advanced AI reasoning. Your role is to:\<newline>'' @
     ''- Design robust, scalable API architectures based on the architect's vision\<newline>'' @
     ''- Create comprehensive database schemas with normalization, indexing strategies, and relationship modeling\<newline>'' @
     ''- Implement sophisticated authentication, authorization, middleware chains, and error handling\<newline>'' @
     ''- Define clean data models, business logic layers, and service patterns with dependency injection\<newline>'' @
     ''- **CRITICAL: Generate PRODUCTION-READY EXECUTABLE CODE** for API routes, database models, middleware, validation, error handlers, and complete server setup\<newline>'' @
     ''- Think through security vulnerabilities, rate limiting, caching strategies, and performance optimization\<newline>'' @
     ''- Ensure code follows SOLID principles and includes proper error handling\<newline>'' @
     ''- Reference and build upon the architect's decisions with technical depth''"

definition PROMPT_frontend :: string where
  "PROMPT_frontend =
     ''You are an elite Frontend Agent powered by advanced AI reasoning. Your role is to:\<newline>'' @
     ''- Design intuitive, accessible, and performant user interfaces aligned with the backend APIs\<newline>'' @
     ''- Architect component hierarchies with proper state management, memoization, and render optimization\<newline>'' @
     ''- Specify modern UI libraries, design systems, and styling approaches with rationale\<newline>'' @
     ''- Plan sophisticated user interactions, form validation, loading states, and error boundaries\<newline>'' @
     ''- **CRITICAL: Generate PRODUCTION-READY EXECUTABLE CODE** for React/Vue components, custom hooks, state management (Redux/Zustand/Context), API integration with error handling, and responsive styling\<newline>'' @
     ''- Think through accessibility (a11y), responsive design, performance metrics, and user experience flows\<newline>'' @
     ''- Implement proper TypeScript types, prop validation, and defensive programming\<newline>'' @
     ''- Reference backend APIs, architectural patterns, and create cohesive user experiences''"

definition PROMPT_qa :: string where
  "PROMPT_qa =
     ''You are an elite QA Agent powered by advanced AI reasoning. Your role is to:\<newline>'' @
     ''- Conduct deep analysis to identify bugs, edge cases, race conditions, and security vulnerabilities\<newline>'' @
     ''- Design comprehensive test strategies covering unit, integration, e2e, and performance testing\<newline>'' @
     ''- Review architectural decisions, backend implementations, and frontend code for correctness and best practices\<newline>'' @
     ''- **CRITICAL: Generate PRODUCTION-READY EXECUTABLE TEST CODE** using modern testing frameworks (Jest, Vitest, Playwright, Cypress)\<newline>'' @
     ''- Create thorough test suites with meaningful test cases, mocks, fixtures, and assertions\<newline>'' @
     ''- Think through security testing (XSS, CSRF, SQL injection), accessibility testing, and performance benchmarks\<newline>'' @
     ''- Provide actionable feedback on code quality, potential refactors, and areas of technical debt\<newline>'' @
     ''- Reference specific concerns from architect, backend, and frontend implementations with technical precision''"

definition DEMO_PROMPT_architect :: string where
  "DEMO_PROMPT_architect =
     ''You are an Architect Agent. Analyze the request and provide:\<newline>'' @
     ''- Quick system overview (2-3 sentences)\<newline>'' @
     ''- Key technology choices (bullet points)\<newline>'' @
     ''- Basic component structure\<newline>'' @
     ''- ONE simple code example (max 15 lines)\<newline>'' @
     ''Keep response under 300 words. Be concise and actionable.''"

definition DEMO_PROMPT_backend :: string where
  "DEMO_PROMPT_backend =
     ''You are a Backend Agent. Based on the architect's plan, provide:\<newline>'' @
     ''- API endpoints needed (bullet list)\<newline>'' @
     ''- Data model (simple schema)\<newline>'' @
     ''- ONE code example showing main API route (max 20 lines)\<newline>'' @
     ''Keep response under 300 words. Be direct and practical.''"

definition DEMO_PROMPT_frontend :: string where
  "DEMO_PROMPT_frontend =
     ''You are a Frontend Agent. Based on backend APIs, provide:\<newline>'' @
     ''- UI components needed (bullet list)\<newline>'' @
     ''- State management approach (1 sentence)\<newline>'' @
     ''- ONE React component example (max 25 lines)\<newline>'' @
     ''Keep response under 300 words. Focus on essentials.''"

definition DEMO_PROMPT_qa :: string where
  "DEMO_PROMPT_qa =
     ''You are a QA Agent. Review the implementation and provide:\<newline>'' @
     ''- 3-5 key test scenarios (bullet points)\<newline>'' @
     ''- ONE simple test code example (max 15 lines)\<newline>'' @
     ''Keep response under 200 words. Be concise.''"

definition AGENT_PROMPTS :: "(string \<times> string) list" where
  "AGENT_PROMPTS =
     [(''architect'', PROMPT_architect), (''backend'', PROMPT_backend),
      (''frontend'', PROMPT_frontend), (''qa'', PROMPT_qa)]"

definition DEMO_AGENT_PROMPTS :: "(string \<times> string) list" where
  "DEMO_AGENT_PROMPTS =
     [(''architect'', DEMO_PROMPT_architect), (''backend'', DEMO_PROMPT_backend),
      (''frontend'', DEMO_PROMPT_frontend), (''qa'', DEMO_PROMPT_qa)]"

text \<open>\<open>obj[key]\<close> on one of the two prompt tables: \<open>None\<close> is \<open>undefined\<close>; every
  value found is truthy (the own values are non-empty strings).\<close>

definition get_property :: "(string \<times> string) list \<Rightarrow> string \<Rightarrow> string option" where
  "get_property obj key =
     (case map_of obj key of
        Some v \<Rightarrow> Some v
      | None \<Rightarrow> map_of Object_prototype key)"

text \<open>\<open>Object.keys(obj).join(', ')\<close>.\<close>

fun join_comma :: "string list \<Rightarrow> string" where
  "join_comma [] = []"
| "join_comma [k] = k"
| "join_comma (k # ks) = k @ '', '' @ join_comma ks"

record discuss_request =
  transcript :: "string option"
  agentRole :: "string option"
  req_context :: "entry list option"
  demoMode :: bool
  previousResearch :: "ResearchData option"

record tokenInfo =
  promptTokens :: int
  allocatedOutputTokens :: int
  tokenInfo_finishReason :: "string option"

text \<open>
  The body of a 200 response. The handler builds it from one of two object literals;
  a field whose key the literal does not have is \<open>None\<close> here (\<open>truncated\<close>,
  \<open>tokenInfo\<close>), as is one whose value is \<open>undefined\<close> (\<open>warning\<close>) or \<open>null\<close>
  (\<open>researchData\<close>, \<open>audioData\<close>).
\<close>

record agent_response =
  message :: string
  warning :: "string option"
  truncated :: "bool option"
  researchData :: "ResearchData option"
  audioData :: "string option"
  tokenInfo :: "tokenInfo option"

datatype reply =
    Ok200 agent_response
  | BadRequest400 string
  | ServerError500 string string

text \<open>History lookup: relevance search, then the recent commands, then nothing.\<close>

definition lookupHistory :: "env \<Rightarrow> string \<Rightarrow> call list \<times> command list" where
  "lookupHistory e t =
     (case searchCommands e t 5 of
        Returns found \<Rightarrow> ([SearchCommands t 5], found)
      | Throws err \<Rightarrow>
          (case getRecentCommands e 5 of
             Returns recent \<Rightarrow> ([SearchCommands t 5, GetRecentCommands 5], recent)
           | Throws fallbackError \<Rightarrow> ([SearchCommands t 5, GetRecentCommands 5], [])))"

text \<open>The research gate. \<open>performResearch\<close> never throws, so the handler's own
  \<open>catch\<close> around it has no case.\<close>

definition researchGate ::
  "env \<Rightarrow> string \<Rightarrow> string \<Rightarrow> ResearchData option \<Rightarrow> call list \<times> ResearchData option" where
  "researchGate e t r previous =
     (if r = ''architect'' \<and> previous = None \<and> shouldPerformResearch t
      then (if MOCK_BRAVE_SEARCH e then ([], Some (getMockResearchData t))
            else performResearch e t)
      else ([], None))"

text \<open>The response of the short-circuit. Reading \<open>results[0].title\<close> of an empty
  \<open>results\<close> would throw into the handler's \<open>catch\<close>.\<close>

definition researchOnly :: "string \<Rightarrow> ResearchData \<Rightarrow> reply" where
  "researchOnly t rd =
     (case results rd of
        [] \<Rightarrow> ServerError500 ''Failed to generate agent response''
                ''Cannot read properties of undefined (reading 'title')''
      | topResult # others \<Rightarrow>
          Ok200 \<lparr>message =
                   BOOKS @ '' Research Complete!\<newline>\<newline>I found '' @ digits_of (length (results rd))
                   @ '' relevant sources for: '' @ dquote @ t @ dquote
                   @ ''\<newline>\<newline>Top Result:\<newline>'' @ title topResult @ ''\<newline>'' @ description topResult
                   @ ''\<newline>\<newline>To implement this request, enable '' @ dquote @ ''Apply Research''
                   @ dquote @ '' and send another message.'',
                 warning = None,
                 truncated = None,
                 researchData = Some rd,
                 audioData = None,
                 tokenInfo = None\<rparr>)"

text \<open>Prompt assembly.\<close>

fun historyLines :: "env \<Rightarrow> nat \<Rightarrow> command list \<Rightarrow> string" where
  "historyLines e idx [] = []"
| "historyLines e idx (cmd # cmds) =
     digits_of (idx + 1) @ ''. '' @ dquote @ cmd_transcript cmd @ dquote @ '' (''
       @ toLocaleString e (cmd_timestamp cmd) @ '')\<newline>''
     @ (if agentResponses cmd \<noteq> []
        then ''   Last response: ''
             @ summarizeResponse (entry_message (last (agentResponses cmd))) 150 @ ''\<newline>''
        else [])
     @ historyLines e (idx + 1) cmds"

definition historyBlock :: "env \<Rightarrow> command list \<Rightarrow> string" where
  "historyBlock e commandHistory =
     (if commandHistory \<noteq> []
      then MEMO @ '' RELEVANT COMMAND HISTORY (found via search):\<newline>''
           @ historyLines e 0 (take 3 commandHistory)
           @ ''\<newline>These are similar commands from the past. Use this context to understand the user's ongoing work and maintain continuity.\<newline>\<newline>''
      else [])"

definition findingsHeader :: string where
  "findingsHeader = MAGNIFIER @ '' RESEARCH FINDINGS (Brave Search):\<newline>''"

definition researchBlock :: "ResearchData option \<Rightarrow> ResearchData option \<Rightarrow> string" where
  "researchBlock fresh previous =
     (let activeResearch = (case fresh of Some rd \<Rightarrow> Some rd | None \<Rightarrow> previous)
      in case activeResearch of
           None \<Rightarrow> []
         | Some active \<Rightarrow>
             findingsHeader @ summary active @ ''\<newline>\<newline>''
             @ (if previous \<noteq> None
                then ''The user has reviewed these research findings and is now asking you to implement based on this information.\<newline>''
                else [])
             @ ''Use these research findings to inform your decisions and recommendations.\<newline>\<newline>'')"

fun contextLines :: "entry list \<Rightarrow> string" where
  "contextLines [] = []"
| "contextLines (item # items) =
     ''- '' @ entry_role item @ '': '' @ summarizeResponse (entry_message item) 250 @ ''\<newline>''
     @ contextLines items"

definition contextBlock :: "entry list option \<Rightarrow> string" where
  "contextBlock ctx =
     (case ctx of
        None \<Rightarrow> []
      | Some items \<Rightarrow>
          if items \<noteq> [] then ''Previous agent summaries:\<newline>'' @ contextLines items @ ''\<newline>''
          else [])"

definition buildPrompt ::
  "env \<Rightarrow> string \<Rightarrow> command list \<Rightarrow> ResearchData option \<Rightarrow> ResearchData option
     \<Rightarrow> entry list option \<Rightarrow> string" where
  "buildPrompt e t commandHistory fresh previous ctx =
     ''User request: '' @ dquote @ t @ dquote @ ''\<newline>\<newline>''
     @ historyBlock e commandHistory
     @ researchBlock fresh previous
     @ contextBlock ctx"

text \<open>\<open>promptMap[agentRole]\<close> inside the template literal; \<open>undefined\<close> renders as
  the word.\<close>

definition systemPrompt :: "bool \<Rightarrow> string \<Rightarrow> string" where
  "systemPrompt demo r =
     (case get_property (if demo then DEMO_AGENT_PROMPTS else AGENT_PROMPTS) r of
        Some p \<Rightarrow> p
      | None \<Rightarrow> ''undefined'')"

definition fullPrompt :: "bool \<Rightarrow> string \<Rightarrow> string \<Rightarrow> string" where
  "fullPrompt demo r prompt =
     systemPrompt demo r @ ''\<newline>\<newline>'' @ prompt @ ''\<newline>\<newline>As the '' @ r @ '' agent, provide your ''
     @ (if demo then ''concise'' else ''detailed'') @ '' analysis and recommendations.''"

definition truncationWarning :: "string \<Rightarrow> string" where
  "truncationWarning r =
     ''The '' @ r @ '' agent's response was truncated due to output length limits. The analysis may be incomplete. Consider simplifying your request.''"

definition complexWarning :: "int \<Rightarrow> string" where
  "complexWarning tokens =
     ''Your request is extremely complex ('' @ digits_of (nat (tokens div 1000))
     @ ''K tokens). With Gemini 3 Pro's 1M context window, this should work, but consider breaking into smaller requests if issues occur.''"

definition demoWarning :: string where
  "demoWarning =
     ''Your request is complex. Demo mode uses a faster model with smaller context. Switch to Production mode for better handling of complex requests.''"

text \<open>\<open>promptTokens > maxModelTokens * 0.7\<close> for an integer \<open>promptTokens\<close>, compared
  exactly.\<close>

definition warningFor :: "bool \<Rightarrow> bool \<Rightarrow> int \<Rightarrow> string \<Rightarrow> string option" where
  "warningFor wasTruncated demo tokens r =
     (if wasTruncated then Some (truncationWarning r)
      else if \<not> demo \<and> tokens > 100000 then Some (complexWarning tokens)
      else if demo \<and> 10 * tokens > 7 * maxModelTokens demo then Some demoWarning
      else None)"

text \<open>
  From prompt assembly to \<open>res.json\<close>. The model call is made with the fixed
  temperature 0.7; when it throws, the handler's \<open>catch\<close> answers 500 with the error's
  message. \<open>generateAgentSpeech\<close> never throws, so the \<open>catch\<close> around it has no case.
\<close>

definition respond ::
  "env \<Rightarrow> string \<Rightarrow> string \<Rightarrow> command list \<Rightarrow> ResearchData option \<Rightarrow> discuss_request
     \<Rightarrow> call list \<times> reply" where
  "respond e t r commandHistory fresh req =
     (let demo = demoMode req;
          prompt = buildPrompt e t commandHistory fresh (previousResearch req) (req_context req);
          full = fullPrompt demo r prompt;
          model = (if demo then ''gemini-2.5-flash'' else ''gemini-3-pro-preview'');
          tokens = estimateTokenCount full;
          allocated = safeOutputTokens demo tokens
      in case generateContent e model full allocated of
           Throws err \<Rightarrow>
             ([GenerateContent model full allocated],
              ServerError500 ''Failed to generate agent response'' err)
         | Returns response \<Rightarrow>
             (let msg = or_else (response_text response)
                          ''I apologize, but I couldn't generate a response.'';
                  wasTruncated = (finishReason response = Some ''MAX_TOKENS'');
                  speech = generateAgentSpeech e r msg
              in (GenerateContent model full allocated # fst speech,
                  Ok200 \<lparr>message = trim msg,
                         warning = warningFor wasTruncated demo tokens r,
                         truncated = Some wasTruncated,
                         researchData = fresh,
                         audioData = map_option base64 (snd speech),
                         tokenInfo =
                           Some \<lparr>promptTokens = tokens,
                                 allocatedOutputTokens = allocated,
                                 tokenInfo_finishReason = finishReason response\<rparr>\<rparr>)))"

text \<open>The handler of \<open>POST /api/agents/discuss\<close>: the external calls it makes, and its
  response.\<close>

definition discuss :: "env \<Rightarrow> discuss_request \<Rightarrow> call list \<times> reply" where
  "discuss e req =
     (case (transcript req, agentRole req) of
        (Some t, Some r) \<Rightarrow>
          if t = [] \<or> r = []
          then ([], BadRequest400 ''Missing required fields: transcript and agentRole'')
          else if get_property AGENT_PROMPTS r = None
          then ([], BadRequest400 (''Invalid agentRole. Must be one of: ''
                                   @ join_comma (map fst AGENT_PROMPTS)))
          else
            (let history = lookupHistory e t;
                 gate = researchGate e t r (previousResearch req)
             in case snd gate of
                  Some rd \<Rightarrow> (fst history @ fst gate, researchOnly t rd)
                | None \<Rightarrow>
                    (let answer = respond e t r (snd history) (snd gate) req
                     in (fst history @ fst gate @ fst answer, snd answer)))
      | other \<Rightarrow> ([], BadRequest400 ''Missing required fields: transcript and agentRole''))"

section \<open>The pipeline driver (client/src/components/CodeDisplay.tsx, handleTranscript)\<close>




datatype turn_end = ResearchShown | Completed "entry list" | Failed






section \<open>Reading a response and a call list\<close>

fun status_of :: "reply \<Rightarrow> nat" where
  "status_of (Ok200 body) = 200"
| "status_of (BadRequest400 err) = 400"
| "status_of (ServerError500 err details) = 500"

fun body_of :: "reply \<Rightarrow> agent_response option" where
  "body_of (Ok200 body) = Some body"
| "body_of other = None"

text \<open>An error text names the accepted roles when each of the four occurs in it.\<close>

definition names_accepted_roles :: "string \<Rightarrow> bool" where
  "names_accepted_roles err =
     (includes_str err ''architect'' \<and> includes_str err ''backend'' \<and>
      includes_str err ''frontend'' \<and> includes_str err ''qa'')"

text \<open>The prompts sent to the language model by a list of calls.\<close>

fun prompts_sent :: "call list \<Rightarrow> string list" where
  "prompts_sent [] = []"
| "prompts_sent (GenerateContent m p n # cs) = p # prompts_sent cs"
| "prompts_sent (c # cs) = prompts_sent cs"

text \<open>
  The ways the speech call can fail that \<open>generateSpeech\<close> checks for: it throws; its
  status is not OK; its body does not parse; the body carries an error code; the body
  has no audio in any of the three places.
\<close>

fun tts_failure :: "tts_http outcome \<Rightarrow> bool" where
  "tts_failure (Throws err) = True"
| "tts_failure (Returns response) =
     (\<not> ok response \<or>
      (case json response of
         None \<Rightarrow> True
       | Some d \<Rightarrow>
           (base_resp d \<noteq> None \<and> base_resp d \<noteq> Some (Some 0)) \<or> audioHex_of d = None))"

section \<open>Example inputs\<close>

definition authResult :: raw_result where
  "authResult =
     \<lparr>raw_title = Some ''Session tokens'', raw_url = Some ''https://example.org/a'',
      raw_description = None\<rparr>"

definition goodSpeech :: tts_http where
  "goodSpeech =
     \<lparr>ok = True,
      json = Some \<lparr>base_resp = Some (Some 0), data_audio = Some ''494433'', audio = None,
                   extra_info_audio_file = None\<rparr>\<rparr>"

definition serverA :: env where
  "serverA =
     \<lparr>MOCK_BRAVE_SEARCH = False,
      BRAVE_API_KEY = Some ''key'',
      MINIMAX_API_KEY = Some ''key'',
      MINIMAX_GROUP_ID = Some ''group'',
      searchCommands = (\<lambda>q n. Returns []),
      getRecentCommands = (\<lambda>n. Returns []),
      webSearch = (\<lambda>q n. Returns (Some (replicate 7 authResult))),
      generateContent =
        (\<lambda>m p n. Returns \<lparr>response_text = Some '' Use a queue. '', finishReason = Some ''STOP''\<rparr>),
      ttsFetch = (\<lambda>rq. Returns goodSpeech),
      toLocaleString = (\<lambda>t. ''11/3/2026, 9:00:00 AM'')\<rparr>"

definition previousFindings :: ResearchData where
  "previousFindings =
     \<lparr>query = ''compare caches'', results = [shape_result authResult],
      allResults = Some [shape_result authResult], totalAvailable = Some 1,
      summary = ''Session tokens''\<rparr>"

definition askArchitect :: "string \<Rightarrow> discuss_request" where
  "askArchitect t =
     \<lparr>transcript = Some t, agentRole = Some ''architect'', req_context = Some [],
      demoMode = False, previousResearch = None\<rparr>"

definition followUp :: discuss_request where
  "followUp = (askArchitect ''Research caching'')\<lparr>previousResearch := Some previousFindings\<rparr>"

definition garbledBody :: tts_data where
  "garbledBody =
     \<lparr>base_resp = Some (Some 0), data_audio = Some ''zz'', audio = None,
      extra_info_audio_file = None\<rparr>"

definition garbledSpeech :: tts_http where
  "garbledSpeech = \<lparr>ok = True, json = Some garbledBody\<rparr>"

definition serverDown :: env where
  "serverDown = serverA\<lparr>ttsFetch := (\<lambda>rq. Throws ''socket hang up'')\<rparr>"

text \<open>The speech request the handler makes for the architect's answer on the example
  server.\<close>

definition architectSpeech :: tts_request where
  "architectSpeech =
     \<lparr>tts_model = ''speech-02-turbo'', tts_text = '' Use a queue. '',
      voice_id = ''male-qn-qingse'', tts_speed = 95\<rparr>"

definition serverGarbled :: env where
  "serverGarbled = serverA\<lparr>ttsFetch := (\<lambda>rq. Returns garbledSpeech)\<rparr>"

definition serverMute :: env where
  "serverMute = serverA\<lparr>MINIMAX_API_KEY := None\<rparr>"

definition cutResponse :: model_response where
  "cutResponse = \<lparr>response_text = Some ''Use a'', finishReason = Some ''MAX_TOKENS''\<rparr>"

definition serverCut :: env where
  "serverCut = serverA\<lparr>generateContent := (\<lambda>m p n. Returns cutResponse)\<rparr>"

definition noTranscript :: discuss_request where
  "noTranscript = (askArchitect [])\<lparr>transcript := None\<rparr>"

definition askManager :: discuss_request where
  "askManager = (askArchitect ''Build a todo list app'')\<lparr>agentRole := Some ''manager''\<rparr>"

definition askConstructor :: discuss_request where
  "askConstructor = (askArchitect ''Build a todo list app'')\<lparr>agentRole := Some ''constructor''\<rparr>"

text \<open>The prompt the handler sends for the architect on \<open>Build a todo list app\<close>, in
  production mode, with no history, research or context.\<close>

definition todoPrompt :: "env \<Rightarrow> string" where
  "todoPrompt e =
     fullPrompt False ''architect''
       (buildPrompt e ''Build a todo list app'' [] None None (Some []))"





section \<open>Properties of the summarizer\<close>

lemma length_trim_le: "length (trim s) \<le> length s"
proof -
  have "length (dropWhile isWhiteSpace (rev (dropWhile isWhiteSpace s)))
          \<le> length (rev (dropWhile isWhiteSpace s))"
    by (rule length_dropWhile_le)
  also have "\<dots> = length (dropWhile isWhiteSpace s)"
    by simp
  also have "\<dots> \<le> length s"
    by (rule length_dropWhile_le)
  finally show ?thesis
    by (simp add: trim_def)
qed

lemma accumulate_bound:
  "int (length acc) \<le> bound \<Longrightarrow> maxLength - 18 \<le> bound \<Longrightarrow>
   int (length (accumulate maxLength acc sentences)) \<le> bound"
proof (induction sentences arbitrary: acc)
  case Nil
  then show ?case by simp
next
  case (Cons sentence rest)
  show ?case
  proof (cases "int (length (acc @ sentence)) > maxLength - 20")
    case True
    with Cons.prems show ?thesis by simp
  next
    case False
    then have "int (length (acc @ sentence @ ''. '')) \<le> bound"
      using Cons.prems(2) by simp
    from Cons.IH [OF this Cons.prems(2)] False show ?thesis by simp
  qed
qed

text \<open>
  C4. For every string \<open>m\<close> and every \<open>maxLength\<close>, \<open>summarizeResponse m maxLength\<close>
  is \<open>m\<close> itself when \<open>m\<close> is no longer than \<open>maxLength\<close>; otherwise its length is at
  most \<open>maxLength\<close> plus the three characters of the marker \<open>...\<close>; and it is non-empty
  whenever \<open>m\<close> is non-empty.
\<close>

theorem summarizeResponse_bounded:
  "(length m \<le> maxLength \<longrightarrow> summarizeResponse m maxLength = m) \<and>
   (length m > maxLength \<longrightarrow> length (summarizeResponse m maxLength) \<le> maxLength + 3) \<and>
   (m \<noteq> [] \<longrightarrow> summarizeResponse m maxLength \<noteq> [])"
proof (intro conjI impI)
  assume "length m \<le> maxLength"
  then show "summarizeResponse m maxLength = m"
    by (simp add: summarizeResponse_def)
next
  assume long: "length m > maxLength"
  define acc where
    "acc = accumulate (int maxLength) [] (filter (\<lambda>s. length s > 20) (split_sentences [] m))"
  have "int (length acc) \<le> int maxLength"
    unfolding acc_def by (rule accumulate_bound) simp_all
  then have "length (trim acc) \<le> maxLength"
    using length_trim_le [of acc] by linarith
  moreover have "length (substring0 m (int maxLength) @ ''...'') \<le> maxLength + 3"
    by (simp add: substring0_def)
  ultimately show "length (summarizeResponse m maxLength) \<le> maxLength + 3"
    using long by (simp add: summarizeResponse_def Let_def acc_def [symmetric])
next
  assume "m \<noteq> []"
  then show "summarizeResponse m maxLength \<noteq> []"
    by (simp add: summarizeResponse_def Let_def)
qed

theorem summarizeResponse_bounded_witness:
  "length ''One'' \<le> (3::nat) \<and> summarizeResponse ''One'' 3 = ''One'' \<and>
   length ''One. Two'' > (3::nat) \<and> length (summarizeResponse ''One. Two'' 3) \<le> 3 + 3 \<and>
   ''One. Two'' \<noteq> [] \<and> summarizeResponse ''One. Two'' 3 \<noteq> [] \<and>
   length ''The service stores every command. It also answers questions about them.'' > (60::nat) \<and>
   length (summarizeResponse
             ''The service stores every command. It also answers questions about them.'' 60)
     \<le> 60 + 3"
  using summarizeResponse_bounded [of "''One''" 3]
    summarizeResponse_bounded [of "''One. Two''" 3]
    summarizeResponse_bounded
      [of "''The service stores every command. It also answers questions about them.''" 60]
  by simp

text \<open>The two ways out of the long branch, computed: the sentences that fit, and the
  hard cut with the marker.\<close>

lemma summarizeResponse_examples:
  "summarizeResponse ''The service stores every command. It also answers questions about them.'' 60
     = ''The service stores every command.''"
  "summarizeResponse ''One. Two'' 3 = ''One...''"
  by code_simp+

section \<open>Properties of the token budget\<close>

text \<open>
  C8. For every prompt size, the output-token allocation lies between the floor of the
  mode (1500 in demo mode, 2000 in production mode) and the ceiling of the mode (1500 in
  demo mode, 8192 in production mode), however large the estimated prompt grows.
\<close>

theorem safeOutputTokens_bounds:
  "(if demo then 1500 else 2000) \<le> safeOutputTokens demo tokens \<and>
   safeOutputTokens demo tokens \<le> (if demo then 1500 else 8192)"
  by (simp add: safeOutputTokens_def maxOutputTokens_def)

text \<open>
  C10. In demo mode the allocation is exactly 1500 whatever the estimated prompt size:
  ceiling and floor coincide, so the reduction by the prompt size never shows.
\<close>

theorem safeOutputTokens_demo:
  "safeOutputTokens True tokens = 1500"
  by (simp add: safeOutputTokens_def maxOutputTokens_def)

section \<open>The calls and the two exits of the handler\<close>

lemma shouldPerformResearch_nonempty: "shouldPerformResearch t \<Longrightarrow> t \<noteq> []"
  by (auto simp: shouldPerformResearch_def toLowerCase_def researchQuestionPatterns_def)

lemma architect_is_known: "get_property AGENT_PROMPTS ''architect'' \<noteq> None"
  by (simp add: get_property_def AGENT_PROMPTS_def)

lemma lookupHistory_calls:
  "c \<in> set (fst (lookupHistory e t)) \<Longrightarrow> c = SearchCommands t 5 \<or> c = GetRecentCommands 5"
  by (auto simp: lookupHistory_def split: outcome.splits)

lemma performResearch_calls:
  "c \<in> set (fst (performResearch e t)) \<Longrightarrow> c = WebSearch t 5"
  by (auto simp: performResearch_def Let_def split: if_splits outcome.splits option.splits list.splits)

lemma researchGate_calls:
  "c \<in> set (fst (researchGate e t r previous)) \<Longrightarrow> c = WebSearch t 5"
  by (auto simp: researchGate_def dest: performResearch_calls split: if_splits)

lemma researchGate_previous: "researchGate e t r (Some pr) = ([], None)"
  by (simp add: researchGate_def)

lemma generateSpeech_calls:
  "c \<in> set (fst (generateSpeech e txt model v)) \<Longrightarrow> is_TtsFetch c"
  by (auto simp: generateSpeech_def Let_def split: if_splits outcome.splits)

lemma generateAgentSpeech_calls:
  "c \<in> set (fst (generateAgentSpeech e r txt)) \<Longrightarrow> is_TtsFetch c"
  by (auto simp: generateAgentSpeech_def Let_def dest: generateSpeech_calls)

lemma performResearch_found:
  assumes "truthy (BRAVE_API_KEY e)" and "webSearch e t 5 = Returns (Some found)" and "found \<noteq> []"
  shows "performResearch e t =
           ([WebSearch t 5],
            Some \<lparr>query = t,
                  results = [shape_result (hd found)],
                  allResults = Some (map shape_result (take 5 found)),
                  totalAvailable = Some (min (length found) 5),
                  summary = summary_of (shape_result (hd found))\<rparr>)"
proof -
  from assms(3) obtain x xs where found: "found = x # xs"
    by (cases found) auto
  show ?thesis
    using assms(1,2) by (simp add: performResearch_def found Let_def)
qed

lemma researchOnly_shape:
  "researchOnly t rd = Ok200 body \<Longrightarrow>
     researchData body = Some rd \<and> truncated body = None \<and> tokenInfo body = None \<and>
     audioData body = None \<and> warning body = None"
  by (auto simp: researchOnly_def split: list.splits)

lemma respond_shape:
  "snd (respond e t r h fresh req) = Ok200 body \<Longrightarrow>
     researchData body = fresh \<and> truncated body \<noteq> None \<and> tokenInfo body \<noteq> None"
  by (auto simp: respond_def Let_def split: outcome.splits)

lemma respond_calls_model:
  "list_ex is_GenerateContent (fst (respond e t r h fresh req))"
  by (auto simp: respond_def Let_def split: outcome.splits)

lemma no_model_before:
  "\<not> list_ex is_GenerateContent (fst (lookupHistory e t) @ fst (researchGate e t r previous))"
  by (auto simp: list_ex_iff dest!: lookupHistory_calls researchGate_calls)

text \<open>A request that passes both checks takes one of the two exits.\<close>

lemma discuss_valid:
  assumes "transcript req = Some t" and "agentRole req = Some r" and "t \<noteq> []" and "r \<noteq> []"
    and "get_property AGENT_PROMPTS r \<noteq> None"
  shows "discuss e req =
     (case snd (researchGate e t r (previousResearch req)) of
        Some rd \<Rightarrow>
          (fst (lookupHistory e t) @ fst (researchGate e t r (previousResearch req)),
           researchOnly t rd)
      | None \<Rightarrow>
          (fst (lookupHistory e t) @ fst (researchGate e t r (previousResearch req))
             @ fst (respond e t r (snd (lookupHistory e t)) None req),
           snd (respond e t r (snd (lookupHistory e t)) None req)))"
  using assms by (auto simp: discuss_def Let_def split: option.splits)

lemma discuss_invalid:
  assumes "status_of (snd (discuss e req)) \<noteq> 400"
  obtains t r where "transcript req = Some t" and "agentRole req = Some r" and "t \<noteq> []"
    and "r \<noteq> []" and "get_property AGENT_PROMPTS r \<noteq> None"
  using assms by (auto simp: discuss_def split: option.splits if_splits)

text \<open>Two runs of the handler on the example server.\<close>

lemma research_caching_triggers: "shouldPerformResearch ''Research caching''"
  by code_simp

lemma todo_app_does_not_trigger: "\<not> shouldPerformResearch ''Build a todo list app''"
  by code_simp

lemma discuss_research_caching:
  "discuss serverA (askArchitect ''Research caching'') =
     ([SearchCommands ''Research caching'' 5, WebSearch ''Research caching'' 5],
      researchOnly ''Research caching''
        \<lparr>query = ''Research caching'',
         results = [shape_result authResult],
         allResults = Some (replicate 5 (shape_result authResult)),
         totalAvailable = Some 5,
         summary = summary_of (shape_result authResult)\<rparr>)"
  using research_caching_triggers
  by (simp add: discuss_def askArchitect_def serverA_def get_property_def AGENT_PROMPTS_def
      lookupHistory_def researchGate_def performResearch_def truthy_def Let_def
      numeral_eq_Suc)

section \<open>The research short-circuit\<close>

text \<open>
  C1. For a request of the architect with no previous research whose transcript triggers
  research, when the search call is made (no mock, key configured) and returns at least
  one result, the handler answers 200 at once: \<open>researchData\<close> is present with exactly
  one entry in \<open>results\<close> and \<open>totalAvailable\<close> the number of results kept (those
  sent, at most 5), \<open>audioData\<close> is \<open>null\<close>, and neither the language model nor the
  speech service is called.
\<close>

theorem research_short_circuit:
  assumes "agentRole req = Some ''architect''"
    and "previousResearch req = None"
    and "transcript req = Some t"
    and "shouldPerformResearch t"
    and "\<not> MOCK_BRAVE_SEARCH e"
    and "truthy (BRAVE_API_KEY e)"
    and "webSearch e t 5 = Returns (Some found)"
    and "found \<noteq> []"
  shows "\<exists>body rd.
           snd (discuss e req) = Ok200 body \<and>
           researchData body = Some rd \<and>
           length (results rd) = 1 \<and>
           totalAvailable rd = Some (min (length found) 5) \<and>
           audioData body = None \<and>
           \<not> list_ex is_GenerateContent (fst (discuss e req)) \<and>
           \<not> list_ex is_TtsFetch (fst (discuss e req))"
proof -
  have t: "t \<noteq> []"
    using assms(4) by (rule shouldPerformResearch_nonempty)
  have gate: "researchGate e t ''architect'' None = performResearch e t"
    using assms(4,5) by (simp add: researchGate_def)
  note found = performResearch_found [OF assms(6,7,8)]
  have "\<not> list_ex is_GenerateContent (fst (lookupHistory e t))"
    and "\<not> list_ex is_TtsFetch (fst (lookupHistory e t))"
    by (auto simp: list_ex_iff dest!: lookupHistory_calls)
  then show ?thesis
    using assms(1,2,3) t architect_is_known
    by (simp add: discuss_def gate found researchOnly_def Let_def)
qed

theorem research_short_circuit_witness:
  "\<exists>body rd.
     snd (discuss serverA (askArchitect ''Research caching'')) = Ok200 body \<and>
     researchData body = Some rd \<and>
     length (results rd) = 1 \<and>
     totalAvailable rd = Some 5 \<and>
     audioData body = None \<and>
     \<not> list_ex is_GenerateContent (fst (discuss serverA (askArchitect ''Research caching''))) \<and>
     \<not> list_ex is_TtsFetch (fst (discuss serverA (askArchitect ''Research caching'')))"
proof -
  have 1: "agentRole (askArchitect ''Research caching'') = Some ''architect''"
    and 2: "previousResearch (askArchitect ''Research caching'') = None"
    and 3: "transcript (askArchitect ''Research caching'') = Some ''Research caching''"
    by (simp_all add: askArchitect_def)
  have 5: "\<not> MOCK_BRAVE_SEARCH serverA" and 6: "truthy (BRAVE_API_KEY serverA)"
    and 7: "webSearch serverA ''Research caching'' 5 = Returns (Some (replicate 7 authResult))"
    and 8: "replicate 7 authResult \<noteq> []"
    by (simp_all add: serverA_def truthy_def)
  from research_short_circuit [OF 1 2 3 research_caching_triggers 5 6 7 8]
  show ?thesis by simp
qed

section \<open>The shape of a 200 response\<close>

text \<open>
  C3, as the handler has it. A 200 response comes from one of two object literals. The
  one sent after the model call has \<open>truncated\<close> and \<open>tokenInfo\<close>, and its
  \<open>researchData\<close> is \<open>null\<close>. The one of the research short-circuit has
  \<open>message\<close>, \<open>researchData\<close> and a \<open>null\<close> \<open>audioData\<close> only: \<open>warning\<close>,
  \<open>truncated\<close> and \<open>tokenInfo\<close> are not in it.
\<close>

theorem response_shape:
  assumes "snd (discuss e req) = Ok200 body"
  shows "(researchData body = None \<and> truncated body \<noteq> None \<and> tokenInfo body \<noteq> None \<and>
            list_ex is_GenerateContent (fst (discuss e req))) \<or>
         (researchData body \<noteq> None \<and> warning body = None \<and> truncated body = None \<and>
            tokenInfo body = None \<and> audioData body = None \<and>
            \<not> list_ex is_GenerateContent (fst (discuss e req)))"
proof -
  from assms have "status_of (snd (discuss e req)) \<noteq> 400"
    by simp
  then obtain t r where tr: "transcript req = Some t" "agentRole req = Some r"
    "t \<noteq> []" "r \<noteq> []" "get_property AGENT_PROMPTS r \<noteq> None"
    by (rule discuss_invalid)
  note valid = discuss_valid [OF tr, of e]
  show ?thesis
  proof (cases "snd (researchGate e t r (previousResearch req))")
    case None
    with assms
    have body: "snd (respond e t r (snd (lookupHistory e t)) None req) = Ok200 body"
      by (simp add: valid)
    have calls: "fst (discuss e req) =
        fst (lookupHistory e t) @ fst (researchGate e t r (previousResearch req))
        @ fst (respond e t r (snd (lookupHistory e t)) None req)"
      using None by (simp add: valid)
    from respond_shape [OF body] respond_calls_model [of e t r "snd (lookupHistory e t)" None req]
    show ?thesis
      by (simp add: calls)
  next
    case (Some rd)
    with assms have body: "researchOnly t rd = Ok200 body"
      by (simp add: valid)
    have calls: "fst (discuss e req) =
        fst (lookupHistory e t) @ fst (researchGate e t r (previousResearch req))"
      using Some by (simp add: valid)
    from researchOnly_shape [OF body] no_model_before [of e t r "previousResearch req"]
    show ?thesis
      by (simp add: calls)
  qed
qed

theorem response_shape_witness:
  "\<exists>body.
     snd (discuss serverA (askArchitect ''Research caching'')) = Ok200 body \<and>
     ((researchData body = None \<and> truncated body \<noteq> None \<and> tokenInfo body \<noteq> None \<and>
         list_ex is_GenerateContent (fst (discuss serverA (askArchitect ''Research caching'')))) \<or>
      (researchData body \<noteq> None \<and> warning body = None \<and> truncated body = None \<and>
         tokenInfo body = None \<and> audioData body = None \<and>
         \<not> list_ex is_GenerateContent (fst (discuss serverA (askArchitect ''Research caching'')))))"
proof -
  obtain body where body: "snd (discuss serverA (askArchitect ''Research caching'')) = Ok200 body"
    by (simp add: discuss_research_caching researchOnly_def)
  from response_shape [OF body] body show ?thesis
    by blast
qed

text \<open>As the specification words C3, it fails on the short-circuit: a 200 response
  with neither \<open>truncated\<close> nor \<open>tokenInfo\<close>.\<close>

theorem response_shape_counterexample:
  "status_of (snd (discuss serverA (askArchitect ''Research caching''))) = 200 \<and>
   map_option truncated (body_of (snd (discuss serverA (askArchitect ''Research caching'')))) = Some None \<and>
   map_option tokenInfo (body_of (snd (discuss serverA (askArchitect ''Research caching'')))) = Some None"
  by (simp add: discuss_research_caching researchOnly_def)

section \<open>Prompts and previous research\<close>

lemma starts_with_iff: "starts_with s p \<longleftrightarrow> (\<exists>b. s = p @ b)"
  by (induction s p rule: starts_with.induct) auto

lemma includes_str_iff: "includes_str s p \<longleftrightarrow> (\<exists>a b. s = a @ p @ b)"
proof (induction s)
  case Nil
  then show ?case by simp
next
  case (Cons c cs)
  show ?case
  proof
    assume "includes_str (c # cs) p"
    then consider "starts_with (c # cs) p" | "includes_str cs p"
      by auto
    then show "\<exists>a b. c # cs = a @ p @ b"
    proof cases
      case 1
      then obtain b where "c # cs = p @ b"
        by (auto simp: starts_with_iff)
      then have "c # cs = [] @ p @ b"
        by simp
      then show ?thesis by blast
    next
      case 2
      with Cons.IH obtain a b where "cs = a @ p @ b"
        by auto
      then have "c # cs = (c # a) @ p @ b"
        by simp
      then show ?thesis by blast
    qed
  next
    assume "\<exists>a b. c # cs = a @ p @ b"
    then obtain a b where ab: "c # cs = a @ p @ b"
      by auto
    show "includes_str (c # cs) p"
    proof (cases a)
      case Nil
      with ab have "starts_with (c # cs) p"
        by (auto simp: starts_with_iff)
      then show ?thesis by simp
    next
      case (Cons a0 as)
      with ab have "cs = as @ p @ b"
        by simp
      with Cons.IH have "includes_str cs p"
        by auto
      then show ?thesis by simp
    qed
  qed
qed

lemma includes_str_middle: "includes_str (a @ p @ b) p"
  by (auto simp: includes_str_iff)

lemma researchBlock_previous:
  "\<exists>b. researchBlock None (Some pr) = (findingsHeader @ summary pr @ ''\<newline>\<newline>'') @ b"
  by (simp add: researchBlock_def)

lemma fullPrompt_has_findings:
  "includes_str (fullPrompt demo r (buildPrompt e t h None (Some pr) ctx))
     (findingsHeader @ summary pr @ ''\<newline>\<newline>'')"
proof -
  obtain b where b: "researchBlock None (Some pr) = (findingsHeader @ summary pr @ ''\<newline>\<newline>'') @ b"
    using researchBlock_previous by blast
  have "fullPrompt demo r (buildPrompt e t h None (Some pr) ctx) =
          (systemPrompt demo r @ ''\<newline>\<newline>'' @ ''User request: '' @ dquote @ t @ dquote @ ''\<newline>\<newline>''
             @ historyBlock e h)
          @ (findingsHeader @ summary pr @ ''\<newline>\<newline>'')
          @ (b @ contextBlock ctx @ ''\<newline>\<newline>As the '' @ r @ '' agent, provide your ''
             @ (if demo then ''concise'' else ''detailed'') @ '' analysis and recommendations.'')"
    unfolding fullPrompt_def buildPrompt_def b by simp
  then show ?thesis
    by (simp only: includes_str_middle)
qed

lemma speech_call_only:
  "is_TtsFetch c \<Longrightarrow> \<not> is_GenerateContent c \<and> \<not> is_WebSearch c"
  by (cases c) auto

lemma empty_role_unknown: "get_property AGENT_PROMPTS [] = None"
  by (simp add: get_property_def AGENT_PROMPTS_def Object_prototype_def)

lemma prompts_sent_append: "prompts_sent (xs @ ys) = prompts_sent xs @ prompts_sent ys"
  by (induction xs rule: prompts_sent.induct) auto

lemma prompts_sent_none: "\<not> list_ex is_GenerateContent cs \<Longrightarrow> prompts_sent cs = []"
  by (induction cs rule: prompts_sent.induct) auto

lemma prompts_sent_speech: "prompts_sent (fst (generateAgentSpeech e r txt)) = []"
  by (rule prompts_sent_none)
     (auto simp: list_ex_iff dest!: generateAgentSpeech_calls speech_call_only)

lemma prompts_sent_respond:
  "prompts_sent (fst (respond e t r h fresh req)) =
     [fullPrompt (demoMode req) r
        (buildPrompt e t h fresh (previousResearch req) (req_context req))]"
  by (simp add: respond_def Let_def prompts_sent_speech split: outcome.splits)

lemma web_search_respond: "\<not> list_ex is_WebSearch (fst (respond e t r h fresh req))"
  by (auto simp: respond_def Let_def list_ex_iff
      dest!: generateAgentSpeech_calls speech_call_only split: outcome.splits)

lemma web_search_history: "\<not> list_ex is_WebSearch (fst (lookupHistory e t))"
  by (auto simp: list_ex_iff dest!: lookupHistory_calls)

lemma discuss_rejected:
  assumes "\<not> (\<exists>t r. transcript req = Some t \<and> agentRole req = Some r \<and> t \<noteq> [] \<and> r \<noteq> []
               \<and> get_property AGENT_PROMPTS r \<noteq> None)"
  shows "fst (discuss e req) = []"
  using assms by (auto simp: discuss_def split: option.splits)

text \<open>
  C6. When a request carries \<open>previousResearch\<close>, the handler makes no web-search
  call, whatever the transcript says, and every prompt it sends to the language model
  contains the findings block: the header, the summary text of \<open>previousResearch\<close>
  and the blank line after it. A request that passes validation sends exactly one prompt.
\<close>

theorem previous_research_reused:
  assumes "previousResearch req = Some pr"
  shows "\<not> list_ex is_WebSearch (fst (discuss e req)) \<and>
         list_all (\<lambda>p. includes_str p (findingsHeader @ summary pr @ ''\<newline>\<newline>''))
           (prompts_sent (fst (discuss e req))) \<and>
         (truthy (transcript req) \<and> agentRole req = Some r \<and> get_property AGENT_PROMPTS r \<noteq> None
            \<longrightarrow> length (prompts_sent (fst (discuss e req))) = 1)"
proof (cases "\<exists>t r. transcript req = Some t \<and> agentRole req = Some r \<and> t \<noteq> [] \<and> r \<noteq> []
               \<and> get_property AGENT_PROMPTS r \<noteq> None")
  case False
  then have "fst (discuss e req) = []"
    by (rule discuss_rejected)
  moreover from False have "\<not> (truthy (transcript req) \<and> agentRole req = Some r
      \<and> get_property AGENT_PROMPTS r \<noteq> None)"
    using empty_role_unknown by (auto simp: truthy_def split: option.splits)
  ultimately show ?thesis
    by simp
next
  case True
  then obtain t r' where tr: "transcript req = Some t" "agentRole req = Some r'"
    "t \<noteq> []" "r' \<noteq> []" "get_property AGENT_PROMPTS r' \<noteq> None"
    by blast
  have calls: "fst (discuss e req) =
      fst (lookupHistory e t) @ fst (respond e t r' (snd (lookupHistory e t)) None req)"
    by (simp add: discuss_valid [OF tr] assms researchGate_previous)
  have history: "prompts_sent (fst (lookupHistory e t)) = []"
    by (rule prompts_sent_none) (auto simp: list_ex_iff dest!: lookupHistory_calls)
  have sent: "prompts_sent (fst (discuss e req)) =
      [fullPrompt (demoMode req) r'
         (buildPrompt e t (snd (lookupHistory e t)) None (Some pr) (req_context req))]"
    by (simp add: calls prompts_sent_append history prompts_sent_respond assms)
  show ?thesis
    using web_search_history [of e t] web_search_respond [of e t r' "snd (lookupHistory e t)" None req]
    by (simp add: sent fullPrompt_has_findings) (simp add: calls)
qed

theorem previous_research_reused_witness:
  "previousResearch followUp = Some previousFindings \<and>
   \<not> list_ex is_WebSearch (fst (discuss serverA followUp)) \<and>
   list_all (\<lambda>p. includes_str p (findingsHeader @ summary previousFindings @ ''\<newline>\<newline>''))
     (prompts_sent (fst (discuss serverA followUp))) \<and>
   truthy (transcript followUp) \<and> agentRole followUp = Some ''architect'' \<and>
   get_property AGENT_PROMPTS ''architect'' \<noteq> None \<and>
   length (prompts_sent (fst (discuss serverA followUp))) = 1"
proof -
  have 1: "previousResearch followUp = Some previousFindings"
    and 2: "truthy (transcript followUp)"
    and 3: "agentRole followUp = Some ''architect''"
    by (simp_all add: followUp_def askArchitect_def truthy_def)
  from previous_research_reused [OF 1, of serverA "''architect''"] 1 2 3 architect_is_known
  show ?thesis by simp
qed

section \<open>After the model call\<close>

lemma respond_returns:
  assumes "GenerateContent m p n \<in> set (fst (respond e t r h fresh req))"
    and "generateContent e m p n = Returns response"
  shows "snd (respond e t r h fresh req) =
     Ok200 \<lparr>message = trim (or_else (response_text response) ''I apologize, but I couldn't generate a response.''),
            warning = warningFor (finishReason response = Some ''MAX_TOKENS'') (demoMode req)
                        (estimateTokenCount p) r,
            truncated = Some (finishReason response = Some ''MAX_TOKENS''),
            researchData = fresh,
            audioData = map_option base64
              (snd (generateAgentSpeech e r
                 (or_else (response_text response) ''I apologize, but I couldn't generate a response.''))),
            tokenInfo = Some \<lparr>promptTokens = estimateTokenCount p, allocatedOutputTokens = n,
                               tokenInfo_finishReason = finishReason response\<rparr>\<rparr>"
proof -
  define full where
    "full = fullPrompt (demoMode req) r
       (buildPrompt e t h fresh (previousResearch req) (req_context req))"
  define model where
    "model = (if demoMode req then ''gemini-2.5-flash'' else ''gemini-3-pro-preview'')"
  define allocated where "allocated = safeOutputTokens (demoMode req) (estimateTokenCount full)"
  have "\<exists>cs. fst (respond e t r h fresh req) = GenerateContent model full allocated # cs \<and>
          (\<forall>c \<in> set cs. is_TtsFetch c)"
    by (auto simp: respond_def Let_def full_def model_def allocated_def
        dest: generateAgentSpeech_calls split: outcome.splits)
  then obtain cs where calls: "fst (respond e t r h fresh req) = GenerateContent model full allocated # cs"
    and speech: "\<forall>c \<in> set cs. is_TtsFetch c"
    by blast
  from speech have "GenerateContent m p n \<notin> set cs"
    by force
  with assms(1) calls have same: "m = model" "p = full" "n = allocated"
    by simp_all
  show ?thesis
    using assms(2) unfolding same
    by (simp add: respond_def Let_def full_def model_def allocated_def)
qed

lemma discuss_model_call:
  assumes "GenerateContent m p n \<in> set (fst (discuss e req))"
  obtains t r where "transcript req = Some t" and "agentRole req = Some r"
    and "snd (discuss e req) = snd (respond e t r (snd (lookupHistory e t)) None req)"
    and "GenerateContent m p n \<in> set (fst (respond e t r (snd (lookupHistory e t)) None req))"
proof -
  from assms have "fst (discuss e req) \<noteq> []"
    by auto
  then obtain t r where tr: "transcript req = Some t" "agentRole req = Some r"
    "t \<noteq> []" "r \<noteq> []" "get_property AGENT_PROMPTS r \<noteq> None"
    using discuss_rejected [of req e] by blast
  note valid = discuss_valid [OF tr, of e]
  have before: "GenerateContent m p n \<notin> set (fst (lookupHistory e t))"
    "GenerateContent m p n \<notin> set (fst (researchGate e t r (previousResearch req)))"
    by (auto dest: lookupHistory_calls researchGate_calls)
  show ?thesis
  proof (cases "snd (researchGate e t r (previousResearch req))")
    case None
    with assms before
    have "GenerateContent m p n \<in> set (fst (respond e t r (snd (lookupHistory e t)) None req))"
      by (simp add: valid)
    moreover have "snd (discuss e req) = snd (respond e t r (snd (lookupHistory e t)) None req)"
      using None by (simp add: valid)
    ultimately show ?thesis
      using tr(1,2) that by blast
  next
    case (Some rd)
    with assms before show ?thesis
      by (simp add: valid)
  qed
qed

lemma todo_app_gate: "researchGate e ''Build a todo list app'' r previous = ([], None)"
  using todo_app_does_not_trigger by (simp add: researchGate_def)

lemma todo_app_valid:
  "discuss e (askArchitect ''Build a todo list app'') =
     (fst (lookupHistory e ''Build a todo list app'')
        @ fst (respond e ''Build a todo list app'' ''architect''
                 (snd (lookupHistory e ''Build a todo list app'')) None
                 (askArchitect ''Build a todo list app'')),
      snd (respond e ''Build a todo list app'' ''architect''
             (snd (lookupHistory e ''Build a todo list app'')) None
             (askArchitect ''Build a todo list app'')))"
proof -
  have "transcript (askArchitect ''Build a todo list app'') = Some ''Build a todo list app''"
    and "agentRole (askArchitect ''Build a todo list app'') = Some ''architect''"
    and "''Build a todo list app'' \<noteq> []" and "''architect'' \<noteq> []"
    by (simp_all add: askArchitect_def)
  from discuss_valid [OF this architect_is_known, of e] show ?thesis
    by (simp add: todo_app_gate)
qed

lemma todo_app_model_call:
  assumes "lookupHistory e ''Build a todo list app'' = ([SearchCommands ''Build a todo list app'' 5], [])"
  shows "GenerateContent ''gemini-3-pro-preview'' (todoPrompt e)
           (safeOutputTokens False (estimateTokenCount (todoPrompt e)))
         \<in> set (fst (discuss e (askArchitect ''Build a todo list app'')))"
proof -
  have "demoMode (askArchitect ''Build a todo list app'') = False"
    and "previousResearch (askArchitect ''Build a todo list app'') = None"
    and "req_context (askArchitect ''Build a todo list app'') = Some []"
    by (simp_all add: askArchitect_def)
  then show ?thesis
    unfolding todo_app_valid assms
    by (simp add: respond_def Let_def todoPrompt_def split: outcome.splits)
qed

lemma serverA_history:
  "lookupHistory (serverA\<lparr>generateContent := g\<rparr>) t = ([SearchCommands t 5], [])"
  "lookupHistory (serverA\<lparr>MINIMAX_API_KEY := k\<rparr>) t = ([SearchCommands t 5], [])"
  "lookupHistory (serverA\<lparr>ttsFetch := f\<rparr>) t = ([SearchCommands t 5], [])"
  by (simp_all add: lookupHistory_def serverA_def)

text \<open>
  C7. When a request reaches the model call and the model reports the finish reason
  \<open>MAX_TOKENS\<close>, the response is a 200 with \<open>truncated = true\<close> and the truncation
  warning, which is not empty; it stands in place of either complexity warning, whatever the
  size of the prompt.
\<close>

theorem truncation_flagged:
  assumes "GenerateContent m p n \<in> set (fst (discuss e req))"
    and "generateContent e m p n = Returns response"
    and "finishReason response = Some ''MAX_TOKENS''"
  shows "\<exists>body r.
           agentRole req = Some r \<and>
           snd (discuss e req) = Ok200 body \<and>
           truncated body = Some True \<and>
           warning body = Some (truncationWarning r) \<and>
           truncationWarning r \<noteq> [] \<and>
           warning body \<noteq> Some demoWarning \<and>
           warning body \<noteq> Some (complexWarning (estimateTokenCount p))"
proof -
  from assms(1) obtain t r where tr: "agentRole req = Some r"
    and reply: "snd (discuss e req) = snd (respond e t r (snd (lookupHistory e t)) None req)"
    and sent: "GenerateContent m p n \<in> set (fst (respond e t r (snd (lookupHistory e t)) None req))"
    by (rule discuss_model_call)
  have differ: "truncationWarning r \<noteq> []" "truncationWarning r \<noteq> demoWarning"
    "truncationWarning r \<noteq> complexWarning (estimateTokenCount p)"
    by (simp_all add: truncationWarning_def demoWarning_def complexWarning_def)
  show ?thesis
    using tr differ
    by (simp add: reply respond_returns [OF sent assms(2)] assms(3) warningFor_def)
qed

theorem truncation_flagged_witness:
  "GenerateContent ''gemini-3-pro-preview'' (todoPrompt serverCut)
     (safeOutputTokens False (estimateTokenCount (todoPrompt serverCut)))
     \<in> set (fst (discuss serverCut (askArchitect ''Build a todo list app''))) \<and>
   generateContent serverCut ''gemini-3-pro-preview'' (todoPrompt serverCut)
     (safeOutputTokens False (estimateTokenCount (todoPrompt serverCut))) = Returns cutResponse \<and>
   finishReason cutResponse = Some ''MAX_TOKENS'' \<and>
   (\<exists>body.
      snd (discuss serverCut (askArchitect ''Build a todo list app'')) = Ok200 body \<and>
      truncated body = Some True \<and>
      warning body = Some (truncationWarning ''architect'') \<and>
      truncationWarning ''architect'' \<noteq> [] \<and>
      warning body \<noteq> Some demoWarning \<and>
      warning body \<noteq> Some (complexWarning (estimateTokenCount (todoPrompt serverCut))))"
proof -
  have sent:
    "GenerateContent ''gemini-3-pro-preview'' (todoPrompt serverCut)
       (safeOutputTokens False (estimateTokenCount (todoPrompt serverCut)))
     \<in> set (fst (discuss serverCut (askArchitect ''Build a todo list app'')))"
    by (rule todo_app_model_call) (simp add: serverCut_def serverA_history)
  have returns:
    "generateContent serverCut ''gemini-3-pro-preview'' (todoPrompt serverCut)
       (safeOutputTokens False (estimateTokenCount (todoPrompt serverCut))) = Returns cutResponse"
    by (simp add: serverCut_def)
  have cut: "finishReason cutResponse = Some ''MAX_TOKENS''"
    by (simp add: cutResponse_def)
  have role: "agentRole (askArchitect ''Build a todo list app'') = Some ''architect''"
    by (simp add: askArchitect_def)
  from truncation_flagged [OF sent returns cut] sent returns cut role show ?thesis
    by auto
qed

section \<open>Speech synthesis never fails the turn\<close>

text \<open>The three ways through \<open>generateSpeech\<close>, by the call it makes.\<close>

lemma generateSpeech_no_credentials:
  "\<not> truthy (MINIMAX_API_KEY e) \<or> \<not> truthy (MINIMAX_GROUP_ID e) \<Longrightarrow>
     generateSpeech e txt model v = ([], None)"
  by (auto simp: generateSpeech_def)

lemma generateSpeech_calls_once:
  "truthy (MINIMAX_API_KEY e) \<Longrightarrow> truthy (MINIMAX_GROUP_ID e) \<Longrightarrow>
     \<exists>rq. fst (generateSpeech e txt model v) = [TtsFetch rq]"
  by (auto simp: generateSpeech_def Let_def split: outcome.splits)

lemma generateSpeech_failure:
  "TtsFetch rq \<in> set (fst (generateSpeech e txt model v)) \<Longrightarrow> tts_failure (ttsFetch e rq) \<Longrightarrow>
     snd (generateSpeech e txt model v) = None"
  by (auto simp: generateSpeech_def Let_def split: if_splits outcome.splits option.splits)

lemma generateSpeech_audio:
  "TtsFetch rq \<in> set (fst (generateSpeech e txt model v)) \<Longrightarrow>
   ttsFetch e rq = Returns speech \<Longrightarrow> ok speech \<Longrightarrow> json speech = Some d \<Longrightarrow>
   base_resp d = None \<or> base_resp d = Some (Some 0) \<Longrightarrow> audioHex_of d = Some h \<Longrightarrow>
     snd (generateSpeech e txt model v) = Some (hexDecode h)"
  by (auto simp: generateSpeech_def Let_def split: if_splits outcome.splits option.splits)

lemma respond_calls:
  assumes "GenerateContent m p n \<in> set (fst (respond e t r h fresh req))"
    and "generateContent e m p n = Returns response"
  shows "fst (respond e t r h fresh req) =
     GenerateContent m p n
       # fst (generateAgentSpeech e r
                (or_else (response_text response) ''I apologize, but I couldn't generate a response.''))"
proof -
  define full where
    "full = fullPrompt (demoMode req) r
       (buildPrompt e t h fresh (previousResearch req) (req_context req))"
  define model where
    "model = (if demoMode req then ''gemini-2.5-flash'' else ''gemini-3-pro-preview'')"
  define allocated where "allocated = safeOutputTokens (demoMode req) (estimateTokenCount full)"
  have "\<exists>cs. fst (respond e t r h fresh req) = GenerateContent model full allocated # cs \<and>
          (\<forall>c \<in> set cs. is_TtsFetch c)"
    by (auto simp: respond_def Let_def full_def model_def allocated_def
        dest: generateAgentSpeech_calls split: outcome.splits)
  then obtain cs where calls: "fst (respond e t r h fresh req) = GenerateContent model full allocated # cs"
    and speech: "\<forall>c \<in> set cs. is_TtsFetch c"
    by blast
  from speech have "GenerateContent m p n \<notin> set cs"
    by force
  with assms(1) calls have same: "m = model" "p = full" "n = allocated"
    by simp_all
  show ?thesis
    using assms(2) unfolding same
    by (simp add: respond_def Let_def full_def model_def allocated_def)
qed

lemma discuss_speech_calls:
  assumes "GenerateContent m p n \<in> set (fst (discuss e req))"
    and "generateContent e m p n = Returns response"
  obtains t r where "agentRole req = Some r"
    and "snd (discuss e req) = snd (respond e t r (snd (lookupHistory e t)) None req)"
    and "GenerateContent m p n \<in> set (fst (respond e t r (snd (lookupHistory e t)) None req))"
    and "\<forall>rq. TtsFetch rq \<in> set (fst (discuss e req)) \<longleftrightarrow>
           TtsFetch rq \<in> set (fst (generateAgentSpeech e r
             (or_else (response_text response) ''I apologize, but I couldn't generate a response.'')))"
proof -
  from assms(1) have "fst (discuss e req) \<noteq> []"
    by auto
  then obtain t r where tr: "transcript req = Some t" "agentRole req = Some r"
    "t \<noteq> []" "r \<noteq> []" "get_property AGENT_PROMPTS r \<noteq> None"
    using discuss_rejected [of req e] by blast
  note valid = discuss_valid [OF tr, of e]
  have before: "c \<notin> set (fst (lookupHistory e t))"
    "c \<notin> set (fst (researchGate e t r (previousResearch req)))"
    if "is_GenerateContent c \<or> is_TtsFetch c" for c
    using that by (auto dest: lookupHistory_calls researchGate_calls)
  show ?thesis
  proof (cases "snd (researchGate e t r (previousResearch req))")
    case None
    then have calls: "fst (discuss e req) =
        fst (lookupHistory e t) @ fst (researchGate e t r (previousResearch req))
        @ fst (respond e t r (snd (lookupHistory e t)) None req)"
      and reply: "snd (discuss e req) = snd (respond e t r (snd (lookupHistory e t)) None req)"
      by (simp_all add: valid)
    from assms(1) before [of "GenerateContent m p n"]
    have sent: "GenerateContent m p n \<in> set (fst (respond e t r (snd (lookupHistory e t)) None req))"
      by (simp add: calls)
    have "TtsFetch rq \<in> set (fst (discuss e req)) \<longleftrightarrow>
           TtsFetch rq \<in> set (fst (generateAgentSpeech e r
             (or_else (response_text response) ''I apologize, but I couldn't generate a response.'')))"
      for rq
      using before [of "TtsFetch rq"] by (simp add: calls respond_calls [OF sent assms(2)])
    then have "\<forall>rq. TtsFetch rq \<in> set (fst (discuss e req)) \<longleftrightarrow>
           TtsFetch rq \<in> set (fst (generateAgentSpeech e r
             (or_else (response_text response) ''I apologize, but I couldn't generate a response.'')))"
      by blast
    with tr(2) reply sent show ?thesis
      by (rule that)
  next
    case (Some rd)
    with assms(1) before [of "GenerateContent m p n"] show ?thesis
      by (simp add: valid)
  qed
qed

lemma garbled_audio:
  "snd (generateAgentSpeech serverGarbled ''architect'' '' Use a queue. '') = Some []"
  by (simp add: generateAgentSpeech_def voice_for_def AGENT_VOICES_def truncateTextForTTS_def
      generateSpeech_def serverGarbled_def serverA_def truthy_def garbledSpeech_def garbledBody_def
      audioHex_of_def or_else_def unhex_def Let_def)

lemma architect_speech_call:
  "truthy (MINIMAX_API_KEY e) \<Longrightarrow> truthy (MINIMAX_GROUP_ID e) \<Longrightarrow>
     fst (generateAgentSpeech e ''architect'' '' Use a queue. '') = [TtsFetch architectSpeech]"
  by (simp add: generateAgentSpeech_def voice_for_def AGENT_VOICES_def truncateTextForTTS_def
      generateSpeech_def or_else_def architectSpeech_def Let_def split: outcome.splits)

lemma todo_app_speech_call:
  assumes "\<And>m p n. generateContent e m p n =
             Returns \<lparr>response_text = Some '' Use a queue. '', finishReason = Some ''STOP''\<rparr>"
    and "truthy (MINIMAX_API_KEY e)" and "truthy (MINIMAX_GROUP_ID e)"
  shows "TtsFetch architectSpeech \<in> set (fst (discuss e (askArchitect ''Build a todo list app'')))"
  unfolding todo_app_valid
  by (simp add: respond_def Let_def assms(1) or_else_def architect_speech_call [OF assms(2,3)])

text \<open>
  C9, as the handler has it. When the model call succeeds the response is a 200 carrying
  the model's text (trimmed; the fixed apology when the model sent none), whatever the
  speech step does. Without an API key or a group id no speech call is made and
  \<open>audioData\<close> is \<open>null\<close>; with both, a speech call is made. When the call made
  fails in a way \<open>generateSpeech\<close> checks for (it throws, its status is not OK, its body
  does not parse, the body carries an error code, the body has no audio), \<open>audioData\<close>
  is \<open>null\<close>. When the call made returns a body with a non-empty audio string,
  that string is never checked for being hexadecimal: \<open>audioData\<close> is the base64 text of
  the bytes decoded from it, the empty string when no byte decodes, and not \<open>null\<close>.
\<close>

theorem speech_failure_tolerated:
  assumes "GenerateContent m p n \<in> set (fst (discuss e req))"
    and "generateContent e m p n = Returns response"
  shows "\<exists>body.
           snd (discuss e req) = Ok200 body \<and>
           message body =
             trim (or_else (response_text response)
                     ''I apologize, but I couldn't generate a response.'') \<and>
           (\<not> truthy (MINIMAX_API_KEY e) \<or> \<not> truthy (MINIMAX_GROUP_ID e) \<longrightarrow>
              audioData body = None \<and> \<not> list_ex is_TtsFetch (fst (discuss e req))) \<and>
           (truthy (MINIMAX_API_KEY e) \<and> truthy (MINIMAX_GROUP_ID e) \<longrightarrow>
              (\<exists>rq. TtsFetch rq \<in> set (fst (discuss e req)))) \<and>
           (\<forall>rq. TtsFetch rq \<in> set (fst (discuss e req)) \<and> tts_failure (ttsFetch e rq) \<longrightarrow>
              audioData body = None) \<and>
           (\<forall>rq speech d h.
              TtsFetch rq \<in> set (fst (discuss e req)) \<and> ttsFetch e rq = Returns speech \<and>
              ok speech \<and> json speech = Some d \<and>
              (base_resp d = None \<or> base_resp d = Some (Some 0)) \<and> audioHex_of d = Some h \<longrightarrow>
              audioData body = Some (base64 (hexDecode h)) \<and>
              (hexDecode h = [] \<longrightarrow> audioData body = Some []))"
proof -
  from assms obtain t r where role: "agentRole req = Some r"
    and reply: "snd (discuss e req) = snd (respond e t r (snd (lookupHistory e t)) None req)"
    and sent: "GenerateContent m p n \<in> set (fst (respond e t r (snd (lookupHistory e t)) None req))"
    and made_by: "\<forall>rq. TtsFetch rq \<in> set (fst (discuss e req)) \<longleftrightarrow>
           TtsFetch rq \<in> set (fst (generateAgentSpeech e r
             (or_else (response_text response) ''I apologize, but I couldn't generate a response.'')))"
    by (rule discuss_speech_calls)
  define msg where
    "msg = or_else (response_text response) ''I apologize, but I couldn't generate a response.''"
  note speech_calls = made_by [rule_format, folded msg_def]
  define body where "body =
     \<lparr>message = trim msg,
      warning = warningFor (finishReason response = Some ''MAX_TOKENS'') (demoMode req)
                  (estimateTokenCount p) r,
      truncated = Some (finishReason response = Some ''MAX_TOKENS''),
      researchData = None,
      audioData = map_option base64 (snd (generateAgentSpeech e r msg)),
      tokenInfo = Some \<lparr>promptTokens = estimateTokenCount p, allocatedOutputTokens = n,
                        tokenInfo_finishReason = finishReason response\<rparr>\<rparr>"
  have replied: "snd (discuss e req) = Ok200 body"
    by (simp add: reply respond_returns [OF sent assms(2)] body_def msg_def)
  have kept: "message body = trim msg"
    and audio: "audioData body = map_option base64 (snd (generateAgentSpeech e r msg))"
    by (simp_all add: body_def)
  have speech: "generateAgentSpeech e r msg =
      generateSpeech e (truncateTextForTTS msg 1000) ''speech-02-turbo'' (voice_for r)"
    by (simp add: generateAgentSpeech_def Let_def)
  have none: "audioData body = None \<and> \<not> list_ex is_TtsFetch (fst (discuss e req))"
    if missing: "\<not> truthy (MINIMAX_API_KEY e) \<or> \<not> truthy (MINIMAX_GROUP_ID e)"
  proof -
    from missing have silent: "generateAgentSpeech e r msg = ([], None)"
      unfolding speech by (rule generateSpeech_no_credentials)
    have "\<not> is_TtsFetch c" if made: "c \<in> set (fst (discuss e req))" for c
    proof
      assume "is_TtsFetch c"
      then obtain rq where "c = TtsFetch rq"
        by (cases c) auto
      with made have "TtsFetch rq \<in> set (fst (generateAgentSpeech e r msg))"
        by (simp add: speech_calls)
      then show False
        by (simp add: silent)
    qed
    then show ?thesis
      by (auto simp: audio silent list_ex_iff)
  qed
  have made: "\<exists>rq. TtsFetch rq \<in> set (fst (discuss e req))"
    if "truthy (MINIMAX_API_KEY e) \<and> truthy (MINIMAX_GROUP_ID e)"
  proof -
    from that obtain rq where "fst (generateAgentSpeech e r msg) = [TtsFetch rq]"
      unfolding speech using generateSpeech_calls_once by blast
    then show ?thesis
      by (auto simp: speech_calls)
  qed
  have failed: "audioData body = None"
    if "TtsFetch rq \<in> set (fst (discuss e req)) \<and> tts_failure (ttsFetch e rq)" for rq
    using that generateSpeech_failure [of rq e "truncateTextForTTS msg 1000" "''speech-02-turbo''" "voice_for r"]
    by (simp add: audio speech_calls speech)
  have decoded: "audioData body = Some (base64 (hexDecode h)) \<and>
      (hexDecode h = [] \<longrightarrow> audioData body = Some [])"
    if "TtsFetch rq \<in> set (fst (discuss e req)) \<and> ttsFetch e rq = Returns speech \<and>
        ok speech \<and> json speech = Some d \<and>
        (base_resp d = None \<or> base_resp d = Some (Some 0)) \<and> audioHex_of d = Some h"
    for rq speech d h
  proof -
    from that have "snd (generateSpeech e (truncateTextForTTS msg 1000) ''speech-02-turbo'' (voice_for r))
        = Some (hexDecode h)"
      by (intro generateSpeech_audio [of rq e _ _ _ speech d h]) (simp_all add: speech_calls speech)
    then show ?thesis
      by (auto simp: audio speech)
  qed
  from replied kept none made failed decoded show ?thesis
    unfolding msg_def by blast
qed

theorem speech_failure_tolerated_witness:
  "(GenerateContent ''gemini-3-pro-preview'' (todoPrompt serverMute)
      (safeOutputTokens False (estimateTokenCount (todoPrompt serverMute)))
      \<in> set (fst (discuss serverMute (askArchitect ''Build a todo list app''))) \<and>
    generateContent serverMute ''gemini-3-pro-preview'' (todoPrompt serverMute)
      (safeOutputTokens False (estimateTokenCount (todoPrompt serverMute))) =
      Returns \<lparr>response_text = Some '' Use a queue. '', finishReason = Some ''STOP''\<rparr> \<and>
    \<not> truthy (MINIMAX_API_KEY serverMute) \<and>
    (\<exists>body.
       snd (discuss serverMute (askArchitect ''Build a todo list app'')) = Ok200 body \<and>
       message body = ''Use a queue.'' \<and>
       audioData body = None)) \<and>
   (GenerateContent ''gemini-3-pro-preview'' (todoPrompt serverDown)
      (safeOutputTokens False (estimateTokenCount (todoPrompt serverDown)))
      \<in> set (fst (discuss serverDown (askArchitect ''Build a todo list app''))) \<and>
    generateContent serverDown ''gemini-3-pro-preview'' (todoPrompt serverDown)
      (safeOutputTokens False (estimateTokenCount (todoPrompt serverDown))) =
      Returns \<lparr>response_text = Some '' Use a queue. '', finishReason = Some ''STOP''\<rparr> \<and>
    TtsFetch architectSpeech \<in> set (fst (discuss serverDown (askArchitect ''Build a todo list app''))) \<and>
    tts_failure (ttsFetch serverDown architectSpeech) \<and>
    (\<exists>body.
       snd (discuss serverDown (askArchitect ''Build a todo list app'')) = Ok200 body \<and>
       message body = ''Use a queue.'' \<and>
       audioData body = None)) \<and>
   (GenerateContent ''gemini-3-pro-preview'' (todoPrompt serverGarbled)
      (safeOutputTokens False (estimateTokenCount (todoPrompt serverGarbled)))
      \<in> set (fst (discuss serverGarbled (askArchitect ''Build a todo list app''))) \<and>
    generateContent serverGarbled ''gemini-3-pro-preview'' (todoPrompt serverGarbled)
      (safeOutputTokens False (estimateTokenCount (todoPrompt serverGarbled))) =
      Returns \<lparr>response_text = Some '' Use a queue. '', finishReason = Some ''STOP''\<rparr> \<and>
    TtsFetch architectSpeech \<in> set (fst (discuss serverGarbled (askArchitect ''Build a todo list app''))) \<and>
    ttsFetch serverGarbled architectSpeech = Returns garbledSpeech \<and>
    ok garbledSpeech \<and> json garbledSpeech = Some garbledBody \<and>
    base_resp garbledBody = Some (Some 0) \<and> audioHex_of garbledBody = Some ''zz'' \<and>
    hexDecode ''zz'' = [] \<and>
    (\<exists>body.
       snd (discuss serverGarbled (askArchitect ''Build a todo list app'')) = Ok200 body \<and>
       message body = ''Use a queue.'' \<and>
       audioData body = Some (base64 (hexDecode ''zz'')) \<and>
       audioData body = Some []))"
proof -
  have trimmed:
    "trim (or_else (Some '' Use a queue. '') ''I apologize, but I couldn't generate a response.'')
       = ''Use a queue.''"
    by (simp add: or_else_def trim_def isWhiteSpace_def)
  have answer: "generateContent e m p n =
      Returns \<lparr>response_text = Some '' Use a queue. '', finishReason = Some ''STOP''\<rparr>"
    if "e = serverMute \<or> e = serverDown \<or> e = serverGarbled" for e m p n
    using that by (auto simp: serverMute_def serverDown_def serverGarbled_def serverA_def)
  have keys: "truthy (MINIMAX_API_KEY e)" "truthy (MINIMAX_GROUP_ID e)"
    if "e = serverDown \<or> e = serverGarbled" for e
    using that by (auto simp: serverDown_def serverGarbled_def serverA_def truthy_def)
  have sent:
    "GenerateContent ''gemini-3-pro-preview'' (todoPrompt e)
       (safeOutputTokens False (estimateTokenCount (todoPrompt e)))
     \<in> set (fst (discuss e (askArchitect ''Build a todo list app'')))"
    if "e = serverMute \<or> e = serverDown \<or> e = serverGarbled" for e
    using that
    by (intro todo_app_model_call)
       (auto simp: serverMute_def serverDown_def serverGarbled_def serverA_history)
  have mute: "\<not> truthy (MINIMAX_API_KEY serverMute)"
    by (simp add: serverMute_def truthy_def)
  have down: "TtsFetch architectSpeech
      \<in> set (fst (discuss serverDown (askArchitect ''Build a todo list app'')))"
    "tts_failure (ttsFetch serverDown architectSpeech)"
    by (simp_all add: todo_app_speech_call answer keys) (simp add: serverDown_def)
  have garbled: "TtsFetch architectSpeech
      \<in> set (fst (discuss serverGarbled (askArchitect ''Build a todo list app'')))"
    "ttsFetch serverGarbled architectSpeech = Returns garbledSpeech"
    "ok garbledSpeech" "json garbledSpeech = Some garbledBody"
    "base_resp garbledBody = Some (Some 0)" "audioHex_of garbledBody = Some ''zz''"
    "hexDecode ''zz'' = []"
    by (simp_all add: todo_app_speech_call answer keys)
       (simp_all add: serverGarbled_def garbledSpeech_def garbledBody_def audioHex_of_def
          truthy_def unhex_def)
  from speech_failure_tolerated [OF sent answer, of serverMute] mute
  have one: "\<exists>body.
       snd (discuss serverMute (askArchitect ''Build a todo list app'')) = Ok200 body \<and>
       message body = ''Use a queue.'' \<and> audioData body = None"
    by (auto simp: trimmed)
  from speech_failure_tolerated [OF sent answer, of serverDown] down
  have two: "\<exists>body.
       snd (discuss serverDown (askArchitect ''Build a todo list app'')) = Ok200 body \<and>
       message body = ''Use a queue.'' \<and> audioData body = None"
    by (auto simp: trimmed)
  from speech_failure_tolerated [OF sent answer, of serverGarbled] garbled
  have three: "\<exists>body.
       snd (discuss serverGarbled (askArchitect ''Build a todo list app'')) = Ok200 body \<and>
       message body = ''Use a queue.'' \<and>
       audioData body = Some (base64 (hexDecode ''zz'')) \<and> audioData body = Some []"
    by (fastforce simp: trimmed)
  from one two three sent answer mute down garbled show ?thesis
    by simp
qed

text \<open>
  As the specification words C9, it fails on a malformed audio payload: \<open>Buffer.from\<close> decodes
  \<open>zz\<close> to an empty buffer, which is truthy, so \<open>audioData\<close> is the empty string and
  not \<open>null\<close>.
\<close>

theorem speech_failure_tolerated_counterexample:
  "map_option data_audio (json garbledSpeech) = Some (Some ''zz'') \<and>
   status_of (snd (discuss serverGarbled (askArchitect ''Build a todo list app''))) = 200 \<and>
   map_option audioData (body_of (snd (discuss serverGarbled (askArchitect ''Build a todo list app''))))
     = Some (Some [])"
proof -
  obtain m p n where sent:
    "GenerateContent m p n \<in> set (fst (respond serverGarbled ''Build a todo list app'' ''architect''
        (snd (lookupHistory serverGarbled ''Build a todo list app'')) None
        (askArchitect ''Build a todo list app'')))"
    using respond_calls_model [of serverGarbled "''Build a todo list app''" "''architect''"
        "snd (lookupHistory serverGarbled ''Build a todo list app'')" None
        "askArchitect ''Build a todo list app''"]
    by (auto simp: list_ex_iff elim: is_GenerateContent.elims)
  have returns: "generateContent serverGarbled m p n =
      Returns \<lparr>response_text = Some '' Use a queue. '', finishReason = Some ''STOP''\<rparr>"
    by (simp add: serverGarbled_def serverA_def)
  show ?thesis
    by (simp add: todo_app_valid respond_returns [OF sent returns] or_else_def garbled_audio
        garbledSpeech_def garbledBody_def)
qed

section \<open>Validation\<close>

lemma role_list: "map fst AGENT_PROMPTS = [''architect'', ''backend'', ''frontend'', ''qa'']"
  by (simp add: AGENT_PROMPTS_def)

lemma invalid_role_text:
  "names_accepted_roles (''Invalid agentRole. Must be one of: '' @ join_comma (map fst AGENT_PROMPTS))"
  unfolding role_list by code_simp

lemma missing_fields_text:
  "\<not> names_accepted_roles ''Missing required fields: transcript and agentRole''"
  by code_simp

text \<open>
  C5, as the handler has it. A request whose \<open>transcript\<close> or \<open>agentRole\<close> is missing
  or empty gets a 400 whose text is \<open>Missing required fields: transcript and agentRole\<close>;
  a request with both whose \<open>agentRole\<close> is neither one of the four roles nor the name
  of a member inherited from \<open>Object.prototype\<close> gets a 400 whose text names the four
  accepted roles. In both cases the handler makes no external call.
\<close>

theorem invalid_input_rejected:
  "(\<not> truthy (transcript req) \<or> \<not> truthy (agentRole req) \<longrightarrow>
      discuss e req = ([], BadRequest400 ''Missing required fields: transcript and agentRole'')) \<and>
   (truthy (transcript req) \<and> agentRole req = Some r \<and> r \<noteq> [] \<and>
    r \<notin> set (map fst AGENT_PROMPTS) \<and> r \<notin> set (map fst Object_prototype) \<longrightarrow>
      (\<exists>err. discuss e req = ([], BadRequest400 err) \<and> names_accepted_roles err))"
proof (intro conjI impI)
  assume "\<not> truthy (transcript req) \<or> \<not> truthy (agentRole req)"
  then show "discuss e req = ([], BadRequest400 ''Missing required fields: transcript and agentRole'')"
    by (auto simp: discuss_def truthy_def split: option.splits)
next
  assume a: "truthy (transcript req) \<and> agentRole req = Some r \<and> r \<noteq> [] \<and>
    r \<notin> set (map fst AGENT_PROMPTS) \<and> r \<notin> set (map fst Object_prototype)"
  then have "map_of AGENT_PROMPTS r = None" and "map_of Object_prototype r = None"
    by (simp_all add: map_of_eq_None_iff)
  then have unknown: "get_property AGENT_PROMPTS r = None"
    by (simp add: get_property_def)
  from a obtain t where t: "transcript req = Some t" "t \<noteq> []"
    by (auto simp: truthy_def split: option.splits)
  have "discuss e req =
      ([], BadRequest400 (''Invalid agentRole. Must be one of: '' @ join_comma (map fst AGENT_PROMPTS)))"
    using a t unknown by (simp add: discuss_def)
  with invalid_role_text show "\<exists>err. discuss e req = ([], BadRequest400 err) \<and> names_accepted_roles err"
    by blast
qed

theorem invalid_input_rejected_witness:
  "\<not> truthy (transcript noTranscript) \<and>
   discuss serverA noTranscript =
     ([], BadRequest400 ''Missing required fields: transcript and agentRole'') \<and>
   truthy (transcript askManager) \<and> agentRole askManager = Some ''manager'' \<and>
   ''manager'' \<noteq> [] \<and> ''manager'' \<notin> set (map fst AGENT_PROMPTS) \<and>
   ''manager'' \<notin> set (map fst Object_prototype) \<and>
   (\<exists>err. discuss serverA askManager = ([], BadRequest400 err) \<and> names_accepted_roles err)"
proof -
  have 1: "\<not> truthy (transcript noTranscript)"
    by (simp add: noTranscript_def truthy_def)
  have 2: "truthy (transcript askManager)" "agentRole askManager = Some ''manager''"
    "''manager'' \<noteq> []" "''manager'' \<notin> set (map fst AGENT_PROMPTS)"
    "''manager'' \<notin> set (map fst Object_prototype)"
    by (simp_all add: askManager_def askArchitect_def truthy_def AGENT_PROMPTS_def
        Object_prototype_def)
  from invalid_input_rejected [where req = noTranscript and e = serverA and r = "''manager''"]
    invalid_input_rejected [where req = askManager and e = serverA and r = "''manager''"] 1 2
  show ?thesis
    by blast
qed

text \<open>As the specification words C5, it fails for a missing field: the 400 text does
  not name the accepted roles.\<close>

theorem invalid_input_rejected_counterexample:
  "snd (discuss serverA noTranscript) =
     BadRequest400 ''Missing required fields: transcript and agentRole'' \<and>
   \<not> names_accepted_roles ''Missing required fields: transcript and agentRole''"
  using missing_fields_text by (simp add: discuss_def noTranscript_def)

text \<open>
  The role check reads \<open>AGENT_PROMPTS[agentRole]\<close>, which also finds the members every
  object inherits: the role \<open>constructor\<close> passes it, and the handler goes on to call
  the language model.
\<close>

lemma inherited_name_passes_validation:
  "agentRole askConstructor = Some ''constructor'' \<and>
   status_of (snd (discuss serverA askConstructor)) = 200 \<and>
   list_ex is_GenerateContent (fst (discuss serverA askConstructor))"
proof -
  have tr: "transcript askConstructor = Some ''Build a todo list app''"
    "agentRole askConstructor = Some ''constructor''"
    "''Build a todo list app'' \<noteq> []" "''constructor'' \<noteq> []"
    "get_property AGENT_PROMPTS ''constructor'' \<noteq> None"
    by (simp_all add: askConstructor_def askArchitect_def get_property_def AGENT_PROMPTS_def
        Object_prototype_def)
  have "status_of (snd (respond serverA t r h fresh req)) = 200" for t r h fresh req
    by (simp add: respond_def Let_def serverA_def)
  with respond_calls_model show ?thesis
    by (simp add: discuss_valid [OF tr] todo_app_gate tr(2))
qed

section \<open>The order of the requests of a turn\<close>








end
